theory Spec2Isabelle
  imports Complex_Main
begin

section \<open>Python values, strings and exceptions\<close>

text \<open>
  A Python \<open>str\<close> is a sequence of Unicode code points, so it is modelled as a list of
  naturals. ASCII literals of the source are written with \<open>u\<close>; the Korean literals of
  the source are given by their code points.
\<close>

type_synonym pystr = "nat list"

definition u :: "string \<Rightarrow> pystr" where
  "u s = map of_char s"

datatype exn_class =
  Exception | ValueError | KeyError | TypeError | AttributeError | NameError
  | JSONDecodeError | RecursionError | OSError | HTTPError

text \<open>An exception object: its class and the text \<open>str(e)\<close> gives.\<close>

datatype exn = Exn (exn_class: exn_class) (exn_str: pystr)

datatype pyval =
  PNone
  | PBool bool
  | PInt int
  | PFloat real
  | PStr pystr
  | PList "pyval list"
  | PDict "(pystr \<times> pyval) list"

text \<open>Truth value testing, as \<open>if x:\<close> and \<open>not x\<close> do it.\<close>

fun truthy :: "pyval \<Rightarrow> bool" where
  "truthy PNone = False"
| "truthy (PBool b) = b"
| "truthy (PInt i) = (i \<noteq> 0)"
| "truthy (PFloat x) = (x \<noteq> 0)"
| "truthy (PStr s) = (s \<noteq> [])"
| "truthy (PList xs) = (xs \<noteq> [])"
| "truthy (PDict kvs) = (kvs \<noteq> [])"

text \<open>\<open>int(x)\<close> on a float truncates towards zero; \<open>str\<close> of an int is its decimal text.\<close>

definition py_int_of_float :: "real \<Rightarrow> int" where
  "py_int_of_float x = (if 0 \<le> x then \<lfloor>x\<rfloor> else \<lceil>x\<rceil>)"

function str_digits :: "int \<Rightarrow> pystr" where
  "str_digits n = (if n < 10 then [nat (48 + n)] else str_digits (n div 10) @ [nat (48 + n mod 10)])"
  by pat_completeness auto
termination
  by (relation "measure nat") auto

declare str_digits.simps [simp del]

definition str_int :: "int \<Rightarrow> pystr" where
  "str_int n = (if n < 0 then 45 # str_digits (- n) else str_digits n)"

section \<open>Names bound in the module \<open>main.py\<close>\<close>

text \<open>
  The names the module binds at its top level (lines 2 to 12 import them, the rest are
  the class and the function it defines). A name used in a function body that is neither
  local nor among the module's names nor a builtin raises \<open>NameError\<close> when the line
  runs. Composition takes the module's names as a parameter, so that it can also be read
  with other bindings; the pipeline passes \<open>main_globals\<close>. Annotations are not part of
  the model.
\<close>

definition main_globals :: "string list" where
  "main_globals =
     [''logging'', ''sys'', ''time'', ''CoupangScraper'', ''GeminiHandler'', ''VideoGenerator'',
      ''AudioGenerator'', ''SubtitleGenerator'', ''InstagramUploader'', ''YouTubeUploader'',
      ''Config'', ''CoupangVideoAutomation'', ''main'']"

definition global_lookup :: "string list \<Rightarrow> string \<Rightarrow> exn + unit" where
  "global_lookup globals name =
     (if name \<in> set globals then Inr ()
      else Inl (Exn NameError (u ''name '' @ [39] @ u name @ [39] @ u '' is not defined'')))"

section \<open>Media clips\<close>

text \<open>
  The clips of the media library, reduced to what composition reads and changes: the file
  a clip was opened on, its duration in seconds, and for a video the audio track bound
  to it.
\<close>

record aclip =
  a_source :: pyval
  a_duration :: real

record vclip =
  v_source :: pyval
  v_duration :: real
  v_audio :: "aclip option"
  v_subtitles :: "pyval option"

text \<open>
  \<open>clip.subclip(t_start, t_end)\<close> of the media library, for \<open>0 \<le> t_start\<close> and
  \<open>0 \<le> t_end\<close>: a copy of the clip with duration \<open>t_end - t_start\<close>.
  \<open>video.set_audio(audio)\<close> returns a copy of the video with that audio track.
\<close>

definition subclip_audio :: "aclip \<Rightarrow> real \<Rightarrow> real \<Rightarrow> aclip" where
  "subclip_audio a t_start t_end = a\<lparr>a_duration := t_end - t_start\<rparr>"

definition subclip_video :: "vclip \<Rightarrow> real \<Rightarrow> real \<Rightarrow> vclip" where
  "subclip_video v t_start t_end = v\<lparr>v_duration := t_end - t_start\<rparr>"

definition set_audio :: "vclip \<Rightarrow> aclip \<Rightarrow> vclip" where
  "set_audio v a = v\<lparr>v_audio := Some a\<rparr>"

subsection \<open>Duration reconciliation (\<open>main.py\<close>, lines 146 to 151)\<close>

definition reconcile_durations :: "vclip \<Rightarrow> aclip \<Rightarrow> vclip \<times> aclip" where
  "reconcile_durations video audio =
     (if a_duration audio \<noteq> v_duration video then
        (if a_duration audio > v_duration video
         then (video, subclip_audio audio 0 (v_duration video))
         else (subclip_video video 0 (a_duration audio), audio))
      else (video, audio))"

subsection \<open>\<open>_compose_final_video\<close> (\<open>main.py\<close>, lines 131 to 179)\<close>

text \<open>
  What composition calls outside the class: the two clip constructors, the file system
  test, the subtitle collaborator and the encoder. Each may raise.
\<close>

record media_env =
  VideoFileClip :: "pyval \<Rightarrow> exn + vclip"
  AudioFileClip :: "pyval \<Rightarrow> exn + aclip"
  path_exists :: "pyval \<Rightarrow> bool"
  add_subtitles_to_video :: "vclip \<Rightarrow> pyval \<Rightarrow> exn + vclip"
  write_videofile :: "vclip \<Rightarrow> pystr \<Rightarrow> exn option"

datatype event =
  Load_video pyval
  | Load_audio pyval
  | Write_file vclip pystr
  | Close_video
  | Close_audio
  | Log_error pystr

definition output_path_of :: "real \<Rightarrow> pystr" where
  "output_path_of now = u ''output/videos/final_'' @ str_int (py_int_of_float now) @ u ''.mp4''"

text \<open>Lines 141 to 153: the audio is loaded, reconciled and bound if a path was given.\<close>

definition load_and_bind_audio :: "media_env \<Rightarrow> vclip \<Rightarrow> pyval \<Rightarrow> exn + (vclip \<times> bool)" where
  "load_and_bind_audio env video audio_path =
     (if truthy audio_path then
        (case AudioFileClip env audio_path of
           Inl e \<Rightarrow> Inl e
         | Inr audio \<Rightarrow>
             (case reconcile_durations video audio of
                (video', audio') \<Rightarrow> Inr (set_audio video' audio', True)))
      else Inr (video, False))"

text \<open>
  Lines 156 to 159. The test is \<open>subtitle_path and os.path.exists(subtitle_path)\<close>:
  the right operand runs only for a truthy path, and it starts by looking up \<open>os\<close>.
\<close>

definition subtitle_step :: "string list \<Rightarrow> media_env \<Rightarrow> vclip \<Rightarrow> pyval \<Rightarrow> exn + vclip" where
  "subtitle_step globals env video subtitle_path =
     (if truthy subtitle_path then
        (case global_lookup globals ''os'' of
           Inl e \<Rightarrow> Inl e
         | Inr _ \<Rightarrow>
             (if path_exists env subtitle_path
              then add_subtitles_to_video env video subtitle_path
              else Inr video))
      else Inr video)"

text \<open>
  The body of the \<open>try\<close>: its outcome and the events up to the point where it ended.
  \<open>now\<close> is what \<open>time.time()\<close> returns at line 162.
\<close>

definition compose_try ::
  "string list \<Rightarrow> media_env \<Rightarrow> real \<Rightarrow> pyval \<Rightarrow> pyval \<Rightarrow> pyval \<Rightarrow> (exn + pystr) \<times> event list" where
  "compose_try globals env now video_path audio_path subtitle_path =
     (case VideoFileClip env video_path of
        Inl e \<Rightarrow> (Inl e, [])
      | Inr video \<Rightarrow>
          (case load_and_bind_audio env video audio_path of
             Inl e \<Rightarrow> (Inl e, [Load_video video_path])
           | Inr (video2, has_audio) \<Rightarrow>
               (let evs = Load_video video_path # (if has_audio then [Load_audio audio_path] else [])
                in case subtitle_step globals env video2 subtitle_path of
                     Inl e \<Rightarrow> (Inl e, evs)
                   | Inr video3 \<Rightarrow>
                       (case write_videofile env video3 (output_path_of now) of
                          Some e \<Rightarrow> (Inl e, evs)
                        | None \<Rightarrow>
                            (Inr (output_path_of now),
                             evs @ [Write_file video3 (output_path_of now), Close_video]
                                 @ (if has_audio then [Close_audio] else []))))))"

text \<open>The string of the log line at line 178.\<close>

definition msg_compose_failed :: pystr where
  "msg_compose_failed = [50689, 49345, 32, 54633, 49457, 32, 49892, 54056]"

definition compose_final_video ::
  "string list \<Rightarrow> media_env \<Rightarrow> real \<Rightarrow> pyval \<Rightarrow> pyval \<Rightarrow> pyval \<Rightarrow> pyval \<times> event list" where
  "compose_final_video globals env now video_path audio_path subtitle_path =
     (case compose_try globals env now video_path audio_path subtitle_path of
        (Inr p, evs) \<Rightarrow> (PStr p, evs)
      | (Inl e, evs) \<Rightarrow> (PNone, evs @ [Log_error (msg_compose_failed @ u '': '' @ exn_str e)]))"

section \<open>Dictionaries\<close>

text \<open>
  A \<open>dict\<close> with string keys, in insertion order. \<open>d[k]\<close> raises \<open>KeyError\<close> whose
  text is the quoted key; \<open>d.get(k, default)\<close> does not raise; \<open>d[k] = v\<close> replaces the
  value of a key that is there and appends a new key otherwise.
\<close>

type_synonym pydict = "(pystr \<times> pyval) list"

definition getitem :: "pydict \<Rightarrow> string \<Rightarrow> exn + pyval" where
  "getitem d k =
     (case map_of d (u k) of
        Some v \<Rightarrow> Inr v
      | None \<Rightarrow> Inl (Exn KeyError ([39] @ u k @ [39])))"

definition dict_get :: "pydict \<Rightarrow> string \<Rightarrow> pyval \<Rightarrow> pyval" where
  "dict_get d k dflt = (case map_of d (u k) of Some v \<Rightarrow> v | None \<Rightarrow> dflt)"

fun setitem :: "pydict \<Rightarrow> pystr \<Rightarrow> pyval \<Rightarrow> pydict" where
  "setitem [] k v = [(k, v)]"
| "setitem ((k', v') # d) k v = (if k' = k then (k, v) # d else (k', v') # setitem d k v)"

definition keys :: "pydict \<Rightarrow> pystr list" where
  "keys d = map fst d"

text \<open>An optional dict or string as a value, for truth value testing.\<close>

definition dict_val :: "pydict option \<Rightarrow> pyval" where
  "dict_val d = (case d of None \<Rightarrow> PNone | Some kvs \<Rightarrow> PDict kvs)"

definition str_val :: "pystr option \<Rightarrow> pyval" where
  "str_val s = (case s of None \<Rightarrow> PNone | Some t \<Rightarrow> PStr t)"

section \<open>The pipeline (\<open>main.py\<close>)\<close>

text \<open>
  The collaborators \<open>process_coupang_link\<close> calls through the attributes of \<open>self\<close>,
  with the result types their signatures give; each call may raise. \<open>time_compose\<close>
  and \<open>time_result\<close> are the readings of \<open>time.time()\<close> at lines 162 and 117/128.
\<close>

record collaborators =
  extract_product_info :: "pystr \<Rightarrow> exn + pydict option"
  generate_video_script :: "pydict \<Rightarrow> exn + pydict option"
  generate_speech :: "pyval \<Rightarrow> pystr \<Rightarrow> exn + pystr option"
  get_audio_duration :: "pystr \<Rightarrow> exn + real"
  generate_subtitles_from_script :: "pyval \<Rightarrow> real \<Rightarrow> exn + pystr option"
  generate_video_from_script :: "pydict \<Rightarrow> pyval \<Rightarrow> exn + pystr option"
  media :: media_env
  instagram_upload_video :: "pyval \<Rightarrow> pyval \<Rightarrow> pyval \<Rightarrow> exn + pystr option"
  youtube_upload_video :: "pyval \<Rightarrow> pyval \<Rightarrow> pyval \<Rightarrow> pyval \<Rightarrow> exn + pystr option"
  time_compose :: real
  time_result :: real

datatype call =
  Call_extract | Call_script | Call_speech | Call_duration | Call_subtitles
  | Call_video | Call_compose | Call_instagram | Call_youtube

text \<open>A computation that may raise and that records the collaborator calls it makes.\<close>

type_synonym 'a run = "call list \<Rightarrow> (exn + 'a) \<times> call list"

definition bind_run :: "'a run \<Rightarrow> ('a \<Rightarrow> 'b run) \<Rightarrow> 'b run" where
  "bind_run m f tr = (case m tr of (Inl e, tr') \<Rightarrow> (Inl e, tr') | (Inr x, tr') \<Rightarrow> f x tr')"

definition return_run :: "'a \<Rightarrow> 'a run" where
  "return_run x tr = (Inr x, tr)"

definition raise_run :: "exn \<Rightarrow> 'a run" where
  "raise_run e tr = (Inl e, tr)"

definition eval_run :: "exn + 'a \<Rightarrow> 'a run" where
  "eval_run r tr = (r, tr)"

definition call_run :: "call \<Rightarrow> exn + 'a \<Rightarrow> 'a run" where
  "call_run c r tr = (r, tr @ [c])"

subsection \<open>\<open>_upload_to_social_media\<close> (lines 181 to 216)\<close>

definition instagram_entry :: "pystr option \<Rightarrow> pyval" where
  "instagram_entry instagram_id =
     PDict [(u ''success'', PBool (instagram_id \<noteq> None)), (u ''media_id'', str_val instagram_id)]"

definition youtube_entry :: "pystr option \<Rightarrow> pyval" where
  "youtube_entry youtube_id =
     PDict [(u ''success'', PBool (youtube_id \<noteq> None)), (u ''video_id'', str_val youtube_id)]"

text \<open>
  The \<open>try\<close> of lines 186 to 210, on the dict \<open>results\<close>: what it raised, if anything, and
  \<open>results\<close> as it stood then. The arguments of a call are evaluated before the call.
\<close>

definition upload_try :: "collaborators \<Rightarrow> pyval \<Rightarrow> pydict \<Rightarrow> call list \<Rightarrow> (exn option \<times> pydict) \<times> call list" where
  "upload_try env video_path script_data tr =
     (case getitem script_data ''description'' of
        Inl e \<Rightarrow> ((Some e, []), tr)
      | Inr description \<Rightarrow>
          (case instagram_upload_video env video_path description
                  (dict_get script_data ''hashtags'' (PList [])) of
             Inl e \<Rightarrow> ((Some e, []), tr @ [Call_instagram])
           | Inr instagram_id \<Rightarrow>
               (let results = setitem [] (u ''instagram'') (instagram_entry instagram_id)
                in case getitem script_data ''title'' of
                     Inl e \<Rightarrow> ((Some e, results), tr @ [Call_instagram])
                   | Inr title \<Rightarrow>
                       (case youtube_upload_video env video_path title description
                               (dict_get script_data ''hashtags'' (PList [])) of
                          Inl e \<Rightarrow> ((Some e, results), tr @ [Call_instagram, Call_youtube])
                        | Inr youtube_id \<Rightarrow>
                            ((None, setitem results (u ''youtube'') (youtube_entry youtube_id)),
                             tr @ [Call_instagram, Call_youtube])))))"

definition upload_to_social_media :: "collaborators \<Rightarrow> pyval \<Rightarrow> pydict \<Rightarrow> call list \<Rightarrow> pydict \<times> call list" where
  "upload_to_social_media env video_path script_data tr =
     (case upload_try env video_path script_data tr of
        ((None, results), tr') \<Rightarrow> (results, tr')
      | ((Some e, results), tr') \<Rightarrow> (setitem results (u ''error'') (PStr (exn_str e)), tr'))"

subsection \<open>\<open>process_coupang_link\<close> (lines 49 to 129)\<close>

text \<open>The texts of the exceptions raised at lines 59, 66, 76, 93 and 102.\<close>

definition msg_extract_failed :: pystr where
  "msg_extract_failed = [49345, 54408, 32, 51221, 48372, 32, 52628, 52636, 32, 49892, 54056]"

definition msg_script_failed :: pystr where
  "msg_script_failed = [49828, 53356, 47549, 53944, 32, 49373, 49457, 32, 49892, 54056]"

definition msg_speech_failed :: pystr where
  "msg_speech_failed = [51020, 49457, 32, 49373, 49457, 32, 49892, 54056]"

definition msg_video_failed :: pystr where
  "msg_video_failed = [50689, 49345, 32, 49373, 49457, 32, 49892, 54056]"

text \<open>The dict or string inside an optional that has tested truthy.\<close>

definition the_dict :: "pydict option \<Rightarrow> pydict" where
  "the_dict d = (case d of None \<Rightarrow> [] | Some kvs \<Rightarrow> kvs)"

definition the_str :: "pystr option \<Rightarrow> pystr" where
  "the_str s = (case s of None \<Rightarrow> [] | Some t \<Rightarrow> t)"

definition success_result :: "collaborators \<Rightarrow> pydict \<Rightarrow> pydict \<Rightarrow> pyval \<Rightarrow> pydict \<Rightarrow> pydict" where
  "success_result env product_info script_data final_video_path upload_results =
     [(u ''success'', PBool True),
      (u ''product_info'', PDict product_info),
      (u ''script_data'', PDict script_data),
      (u ''video_path'', final_video_path),
      (u ''upload_results'', PDict upload_results),
      (u ''processing_time'', PFloat (time_result env))]"

definition failure_result :: "collaborators \<Rightarrow> exn \<Rightarrow> pydict" where
  "failure_result env e =
     [(u ''success'', PBool False),
      (u ''error'', PStr (exn_str e)),
      (u ''processing_time'', PFloat (time_result env))]"

text \<open>Stages 6 and 7 (lines 95 to 121), given what the stages before produced.\<close>

definition compose_and_publish :: "collaborators \<Rightarrow> pydict \<Rightarrow> pydict \<Rightarrow> pystr \<Rightarrow> pystr \<Rightarrow> pystr option \<Rightarrow> pydict run" where
  "compose_and_publish env product_info script_data video_path audio_path subtitle_path =
     bind_run (call_run Call_compose
                 (Inr (fst (compose_final_video main_globals (media env) (time_compose env)
                              (PStr video_path) (PStr audio_path) (str_val subtitle_path)))))
       (\<lambda>final_video_path.
          if \<not> truthy final_video_path then raise_run (Exn Exception msg_compose_failed)
          else (\<lambda>tr. case upload_to_social_media env final_video_path script_data tr of
                       (upload_results, tr') \<Rightarrow>
                         (Inr (success_result env product_info script_data
                                 final_video_path upload_results), tr')))"

text \<open>Stages 3 to 5 (lines 68 to 93), given the product and the script.\<close>

definition speech_subtitles_video :: "collaborators \<Rightarrow> pydict \<Rightarrow> pydict \<Rightarrow> pydict run" where
  "speech_subtitles_video env product_info script_data =
     bind_run (eval_run (getitem script_data ''script'')) (\<lambda>script_text.
     bind_run (call_run Call_speech (generate_speech env script_text (u ''alloy''))) (\<lambda>audio_path.
       if \<not> truthy (str_val audio_path) then raise_run (Exn Exception msg_speech_failed)
       else
     bind_run (eval_run (getitem script_data ''script'')) (\<lambda>script_text'.
     bind_run (call_run Call_duration (get_audio_duration env (the_str audio_path))) (\<lambda>duration.
     bind_run (call_run Call_subtitles
                 (generate_subtitles_from_script env script_text' duration)) (\<lambda>subtitle_path.
     bind_run (call_run Call_video
                 (generate_video_from_script env script_data
                    (dict_get product_info ''images'' (PList [])))) (\<lambda>video_path.
       if \<not> truthy (str_val video_path) then raise_run (Exn Exception msg_video_failed)
       else compose_and_publish env product_info script_data
              (the_str video_path) (the_str audio_path) subtitle_path))))))"

text \<open>
  The body of the \<open>try\<close> (lines 52 to 121). Line 65 of the source breaks off after
  \<open>if not script_\<close>; it is read as the test of \<open>script_data\<close>, like the tests of the other
  stages and as the text raised at line 66 says.
\<close>

definition process_try :: "collaborators \<Rightarrow> pystr \<Rightarrow> pydict run" where
  "process_try env coupang_url =
     bind_run (call_run Call_extract (extract_product_info env coupang_url)) (\<lambda>product_info.
       if \<not> truthy (dict_val product_info) then raise_run (Exn Exception msg_extract_failed)
       else
     bind_run (call_run Call_script (generate_video_script env (the_dict product_info))) (\<lambda>script_data.
       if \<not> truthy (dict_val script_data) then raise_run (Exn Exception msg_script_failed)
       else speech_subtitles_video env (the_dict product_info) (the_dict script_data)))"

definition process_coupang_link :: "collaborators \<Rightarrow> pystr \<Rightarrow> pydict \<times> call list" where
  "process_coupang_link env coupang_url =
     (case process_try env coupang_url [] of
        (Inr result, tr) \<Rightarrow> (result, tr)
      | (Inl e, tr) \<Rightarrow> (failure_result env e, tr))"

section \<open>Waiting for a remote job\<close>

text \<open>
  Both waiting loops read the clock at the loop test, query the service inside a \<open>try\<close>,
  and sleep ten seconds before the next test (\<open>time.sleep(10)\<close>); the default
  \<open>max_wait\<close> is 300. \<open>elapsed\<close> is \<open>time.time() - start_time\<close> at the loop test, in
  seconds; the \<open>k\<close>-th query takes \<open>query_seconds k\<close>, and time does not run backwards.
\<close>

definition poll_interval :: real where
  "poll_interval = 10"

definition default_max_wait :: real where
  "default_max_wait = 300"

datatype poll_event =
  Queried nat
  | Slept real
  | Logged_info pystr
  | Logged_warning pystr
  | Logged_error pystr

definition log_upload_done :: pystr where
  "log_upload_done = [50629, 47196, 46300, 32, 50756, 47308]"

definition log_upload_error :: pystr where
  "log_upload_error = [50629, 47196, 46300, 32, 50724, 47448, 32, 48156, 49373]"

definition log_status_error :: pystr where
  "log_status_error = [49345, 53468, 32, 54869, 51064, 32, 51473, 32, 50724, 47448, 58, 32]"

definition log_upload_timeout :: pystr where
  "log_upload_timeout = [50629, 47196, 46300, 32, 49884, 44036, 32, 52488, 44284]"



subsection \<open>\<open>_wait_for_upload_completion\<close> (\<open>instagram_uploader.py\<close>, lines 97 to 129)\<close>

text \<open>
  \<open>status_query k\<close> is the \<open>k\<close>-th run of lines 103 to 113: the exception that the
  request, \<open>raise_for_status\<close> or \<open>json\<close> raised, or \<open>result.get('status_code')\<close>.
\<close>

record graph_api =
  status_query :: "nat \<Rightarrow> exn + pyval"
  status_seconds :: "nat \<Rightarrow> real"

function wait_for_upload_completion :: "graph_api \<Rightarrow> real \<Rightarrow> real \<Rightarrow> nat \<Rightarrow> bool \<times> poll_event list" where
  "wait_for_upload_completion api max_wait elapsed k =
     (if elapsed < max_wait then
        (case status_query api k of
           Inl e \<Rightarrow>
             apsnd ((@) [Queried k, Logged_error (log_status_error @ exn_str e), Slept poll_interval])
               (wait_for_upload_completion api max_wait
                  (elapsed + max 0 (status_seconds api k) + poll_interval) (Suc k))
         | Inr status \<Rightarrow>
             if status = PStr (u ''FINISHED'') then
               (True, [Queried k, Logged_info log_upload_done])
             else if status = PStr (u ''ERROR'') then
               (False, [Queried k, Logged_error log_upload_error])
             else
               apsnd ((@) [Queried k, Slept poll_interval])
                 (wait_for_upload_completion api max_wait
                    (elapsed + max 0 (status_seconds api k) + poll_interval) (Suc k)))
      else (False, [Logged_warning log_upload_timeout]))"
  by pat_completeness auto
termination
proof (relation "measure (\<lambda>(api, max_wait, elapsed, k). nat \<lceil>max_wait - elapsed\<rceil>)")
  show "wf (measure (\<lambda>(api, max_wait, elapsed, k). nat \<lceil>max_wait - elapsed\<rceil>))"
    by simp
next
  fix api :: graph_api and max_wait elapsed :: real and k :: nat and e :: exn
  assume "elapsed < max_wait"
  then show "((api, max_wait, elapsed + max 0 (status_seconds api k) + poll_interval, Suc k),
              (api, max_wait, elapsed, k))
             \<in> measure (\<lambda>(api, max_wait, elapsed, k). nat \<lceil>max_wait - elapsed\<rceil>)"
    unfolding poll_interval_def by (simp add: max_def) linarith
next
  fix api :: graph_api and max_wait elapsed :: real and k :: nat and status :: pyval
  assume "elapsed < max_wait"
  then show "((api, max_wait, elapsed + max 0 (status_seconds api k) + poll_interval, Suc k),
              (api, max_wait, elapsed, k))
             \<in> measure (\<lambda>(api, max_wait, elapsed, k). nat \<lceil>max_wait - elapsed\<rceil>)"
    unfolding poll_interval_def by (simp add: max_def) linarith
qed

declare wait_for_upload_completion.simps [simp del]

subsection \<open>\<open>_wait_for_video_completion\<close> (\<open>video_generator.py\<close>, lines 178 to 207)\<close>

text \<open>
  \<open>task_query k\<close> is the \<open>k\<close>-th run of lines 184 to 192: the exception that the request
  or \<open>json\<close> raised, or the HTTP status code with the decoded body, which is read only
  under code 200. \<open>error_text\<close> is \<open>result.get('error')\<close> as the log line formats it.
\<close>

record task_result =
  status :: pyval
  video_url :: pyval
  error_text :: pystr




section \<open>Parsing the script response (\<open>gemini_handler.py\<close>, lines 75 to 102)\<close>

text \<open>
  \<open>s.find(c)\<close> and \<open>s.rfind(c)\<close> for a one character \<open>c\<close>: the first and the last index of
  \<open>c\<close>, or \<open>-1\<close>. \<open>s[a:b]\<close> with Python's treatment of negative and too large bounds.
\<close>

fun find_char :: "nat \<Rightarrow> pystr \<Rightarrow> int" where
  "find_char c [] = - 1"
| "find_char c (x # xs) =
     (if x = c then 0 else (let r = find_char c xs in if r = - 1 then - 1 else r + 1))"

definition rfind_char :: "nat \<Rightarrow> pystr \<Rightarrow> int" where
  "rfind_char c s =
     (let r = find_char c (rev s) in if r = - 1 then - 1 else int (length s) - 1 - r)"

definition slice_bound :: "int \<Rightarrow> int \<Rightarrow> nat" where
  "slice_bound n i = nat (min n (max 0 (if i < 0 then i + n else i)))"

definition py_slice :: "pystr \<Rightarrow> int \<Rightarrow> int \<Rightarrow> pystr" where
  "py_slice s a b =
     (let n = int (length s) in take (slice_bound n b - slice_bound n a) (drop (slice_bound n a) s))"

definition fallback_title :: pystr where
  "fallback_title = [53216, 54049, 32, 49345, 54408, 32, 49548, 44060]"

definition fallback_description :: pystr where
  "fallback_description =
     [65, 73, 44032, 32, 49373, 49457, 54620, 32, 49345, 54408, 32, 49548, 44060, 32,
      50689, 49345, 51077, 45768, 45796, 46]"

definition fallback_hashtags :: "pyval list" where
  "fallback_hashtags =
     [PStr [53216, 54049], PStr [49345, 54408, 52628, 52380], PStr [49660, 54609], PStr (u ''AI'')]"

definition fallback_scene_description :: pystr where
  "fallback_scene_description = [49345, 54408, 32, 49548, 44060]"

definition fallback_parse :: "pystr \<Rightarrow> pyval" where
  "fallback_parse text =
     PDict [(u ''title'', PStr fallback_title),
            (u ''description'', PStr fallback_description),
            (u ''script'', PStr (take 500 text)),
            (u ''hashtags'', PList fallback_hashtags),
            (u ''video_scenes'',
               PList [PDict [(u ''scene'', PInt 1),
                             (u ''description'', PStr fallback_scene_description),
                             (u ''duration'', PInt 30)]])]"

text \<open>
  \<open>json.loads\<close> is the standard library's decoder and is a parameter here: it returns a
  value or raises. Only \<open>JSONDecodeError\<close> is caught (line 89).
\<close>

definition parse_script_response :: "(pystr \<Rightarrow> exn + pyval) \<Rightarrow> pystr \<Rightarrow> exn + pyval" where
  "parse_script_response json_loads response_text =
     (let start_idx = find_char 123 response_text;
          end_idx = rfind_char 125 response_text + 1
      in if start_idx \<noteq> - 1 \<and> end_idx \<noteq> - 1 then
           (case json_loads (py_slice response_text start_idx end_idx) of
              Inr v \<Rightarrow> Inr v
            | Inl e \<Rightarrow>
                if exn_class e = JSONDecodeError then Inr (fallback_parse response_text)
                else Inl e)
         else Inr (fallback_parse response_text))"

text \<open>
  A decoder that agrees with \<open>json.loads\<close> on the text \<open>{}\<close>, which it decodes to the
  empty dict, and reports every other text as undecodable; it is used on \<open>{}\<close> only.
\<close>

definition json_loads_empty_object :: "pystr \<Rightarrow> exn + pyval" where
  "json_loads_empty_object s =
     (if s = u ''{}'' then Inr (PDict []) else Inl (Exn JSONDecodeError (u ''Expecting value'')))"

definition has_script_keys :: "pyval \<Rightarrow> bool" where
  "has_script_keys v =
     (case v of
        PDict d \<Rightarrow> list_all (\<lambda>k. u k \<in> set (keys d))
                     [''title'', ''description'', ''script'', ''hashtags'', ''video_scenes'']
      | _ \<Rightarrow> False)"

section \<open>The scraper (\<open>coupang_scraper.py\<close>)\<close>

subsection \<open>\<open>_is_valid_coupang_url\<close> (lines 59 to 65)\<close>

text \<open>
  The two patterns use literal characters, \<open>.\<close> (any character but a newline), \<open>\d\<close> (a
  decimal digit of Unicode, given by the parameter \<open>nd\<close>) and the postfix operators
  \<open>?\<close>, \<open>*\<close> and \<open>+\<close> on single characters. \<open>rests\<close> lists what may remain of the text
  after one item has matched at its start; \<open>re.match\<close> succeeds when the items match one
  after the other from the start of the text.
\<close>

datatype char_class = Lit nat | Any_char | Digit

datatype item = One char_class | Opt char_class | Star char_class | Plus char_class

fun in_class :: "(nat \<Rightarrow> bool) \<Rightarrow> char_class \<Rightarrow> nat \<Rightarrow> bool" where
  "in_class nd (Lit c) x = (x = c)"
| "in_class nd Any_char x = (x \<noteq> 10)"
| "in_class nd Digit x = nd x"

fun star_rests :: "(nat \<Rightarrow> bool) \<Rightarrow> char_class \<Rightarrow> pystr \<Rightarrow> pystr list" where
  "star_rests nd cl [] = [[]]"
| "star_rests nd cl (x # xs) = (x # xs) # (if in_class nd cl x then star_rests nd cl xs else [])"

fun rests :: "(nat \<Rightarrow> bool) \<Rightarrow> item \<Rightarrow> pystr \<Rightarrow> pystr list" where
  "rests nd (One cl) s = (case s of [] \<Rightarrow> [] | x # xs \<Rightarrow> if in_class nd cl x then [xs] else [])"
| "rests nd (Opt cl) s = s # (case s of [] \<Rightarrow> [] | x # xs \<Rightarrow> if in_class nd cl x then [xs] else [])"
| "rests nd (Star cl) s = star_rests nd cl s"
| "rests nd (Plus cl) s =
     (case s of [] \<Rightarrow> [] | x # xs \<Rightarrow> if in_class nd cl x then star_rests nd cl xs else [])"

fun re_match :: "(nat \<Rightarrow> bool) \<Rightarrow> item list \<Rightarrow> pystr \<Rightarrow> bool" where
  "re_match nd [] s = True"
| "re_match nd (i # is) s = list_ex (re_match nd is) (rests nd i s)"

definition lit :: "string \<Rightarrow> item list" where
  "lit s = map (\<lambda>c. One (Lit (of_char c))) s"

definition coupang_patterns :: "item list list" where
  "coupang_patterns =
     [lit ''http'' @ [Opt (Lit 115)] @ lit ''://'' @ [Star Any_char]
        @ lit ''coupang.com/vp/products/'' @ [Plus Digit],
      lit ''http'' @ [Opt (Lit 115)] @ lit ''://'' @ [Star Any_char]
        @ lit ''coupang.com/np/search'']"

definition is_valid_coupang_url :: "(nat \<Rightarrow> bool) \<Rightarrow> pystr \<Rightarrow> bool" where
  "is_valid_coupang_url nd url = list_ex (\<lambda>pattern. re_match nd pattern url) coupang_patterns"

subsection \<open>\<open>extract_product_info\<close> (lines 27 to 57)\<close>

text \<open>
  \<open>fetch_page\<close> is lines 35 to 38 (the request with its headers, \<open>raise_for_status\<close> and
  the HTML parser), \<open>extract_field\<close> the extraction method of the given name applied to
  the parsed page. Each may raise.
\<close>

record 'soup scraper_env =
  decimal_digit :: "nat \<Rightarrow> bool"
  fetch_page :: "pystr \<Rightarrow> exn + 'soup"
  extract_field :: "string \<Rightarrow> 'soup \<Rightarrow> exn + pyval"

definition msg_invalid_url :: pystr where
  "msg_invalid_url =
     [50976, 54952, 54616, 51648, 32, 50506, 51008, 32, 53216, 54049, 32, 85, 82, 76,
      51077, 45768, 45796]"

definition product_fields :: "(string \<times> string) list" where
  "product_fields =
     [(''title'', ''_extract_title''), (''price'', ''_extract_price''),
      (''original_price'', ''_extract_original_price''), (''rating'', ''_extract_rating''),
      (''review_count'', ''_extract_review_count''), (''description'', ''_extract_description''),
      (''images'', ''_extract_images'')]"

fun collect_fields :: "'soup scraper_env \<Rightarrow> 'soup \<Rightarrow> (string \<times> string) list \<Rightarrow> exn + pydict" where
  "collect_fields env soup [] = Inr []"
| "collect_fields env soup ((key, method) # rest) =
     (case extract_field env method soup of
        Inl e \<Rightarrow> Inl e
      | Inr v \<Rightarrow>
          (case collect_fields env soup rest of
             Inl e \<Rightarrow> Inl e
           | Inr d \<Rightarrow> Inr ((u key, v) # d)))"

definition scrape_try :: "'soup scraper_env \<Rightarrow> pystr \<Rightarrow> exn + pydict" where
  "scrape_try env coupang_url =
     (if \<not> is_valid_coupang_url (decimal_digit env) coupang_url
      then Inl (Exn ValueError msg_invalid_url)
      else
        (case fetch_page env coupang_url of
           Inl e \<Rightarrow> Inl e
         | Inr soup \<Rightarrow>
             (case collect_fields env soup product_fields of
                Inl e \<Rightarrow> Inl e
              | Inr d \<Rightarrow> Inr (d @ [(u ''url'', PStr coupang_url)]))))"

definition scraper_extract_product_info :: "'soup scraper_env \<Rightarrow> pystr \<Rightarrow> pydict option" where
  "scraper_extract_product_info env coupang_url =
     (case scrape_try env coupang_url of Inr product_info \<Rightarrow> Some product_info | Inl e \<Rightarrow> None)"

subsection \<open>Example clips\<close>

definition speech_28s :: aclip where
  "speech_28s = \<lparr>a_source = PStr (u ''output/audio/speech_1700000000.mp3''), a_duration = 28\<rparr>"

definition video_32s :: vclip where
  "video_32s = \<lparr>v_source = PStr (u ''output/videos/final_video_1700000100.mp4''),
                 v_duration = 32, v_audio = None, v_subtitles = None\<rparr>"

subsection \<open>Substring test\<close>

text \<open>\<open>needle in text\<close> on strings.\<close>

fun starts_with :: "pystr \<Rightarrow> pystr \<Rightarrow> bool" where
  "starts_with s [] = True"
| "starts_with [] (c # cs) = False"
| "starts_with (x # xs) (c # cs) = (x = c \<and> starts_with xs cs)"

fun contains :: "pystr \<Rightarrow> pystr \<Rightarrow> bool" where
  "contains [] needle = (needle = [])"
| "contains (x # xs) needle = (starts_with (x # xs) needle \<or> contains xs needle)"

subsection \<open>Example collaborators\<close>

text \<open>
  A run in which every collaborator answers: a product, a script with all its keys, a
  28 second narration, no subtitles, a 32 second video, an encoder that writes the file
  and two uploads that return their ids.
\<close>

definition sample_product :: pydict where
  "sample_product =
     [(u ''title'', PStr (u ''Widget'')), (u ''price'', PStr (u ''10000'')),
      (u ''images'', PList [])]"

definition sample_script :: pydict where
  "sample_script =
     [(u ''title'', PStr (u ''Widget in 30 seconds'')),
      (u ''description'', PStr (u ''A short look at the widget'')),
      (u ''script'', PStr (u ''Meet the widget.'')),
      (u ''hashtags'', PList [PStr (u ''widget'')])]"

definition sample_media :: media_env where
  "sample_media =
     \<lparr>VideoFileClip = (\<lambda>p. Inr video_32s),
      AudioFileClip = (\<lambda>p. Inr speech_28s),
      path_exists = (\<lambda>p. False),
      add_subtitles_to_video = (\<lambda>v p. Inr (v\<lparr>v_subtitles := Some p\<rparr>)),
      write_videofile = (\<lambda>v p. None)\<rparr>"

definition sample_env :: collaborators where
  "sample_env =
     \<lparr>extract_product_info = (\<lambda>url. Inr (Some sample_product)),
      generate_video_script = (\<lambda>p. Inr (Some sample_script)),
      generate_speech = (\<lambda>t v. Inr (Some (u ''output/audio/speech_1700000000.mp3''))),
      get_audio_duration = (\<lambda>p. Inr 28),
      generate_subtitles_from_script = (\<lambda>t d. Inr None),
      generate_video_from_script = (\<lambda>s i. Inr (Some (u ''output/videos/final_video_1700000100.mp4''))),
      media = sample_media,
      instagram_upload_video = (\<lambda>p c h. Inr (Some (u ''17900000000000001''))),
      youtube_upload_video = (\<lambda>p t d h. Inr (Some (u ''dQw4w9WgXcQ''))),
      time_compose = 1700000200,
      time_result = 1700000300\<rparr>"


text \<open>
  Variants of the example run: a stage that returns \<open>None\<close>, an upload that returns
  \<open>None\<close>, and a script without the key \<open>description\<close>.
\<close>

definition extract_null_env :: collaborators where
  "extract_null_env = sample_env\<lparr>extract_product_info := (\<lambda>url. Inr None)\<rparr>"

definition script_null_env :: collaborators where
  "script_null_env = sample_env\<lparr>generate_video_script := (\<lambda>p. Inr None)\<rparr>"

definition speech_null_env :: collaborators where
  "speech_null_env = sample_env\<lparr>generate_speech := (\<lambda>t v. Inr None)\<rparr>"

definition video_null_env :: collaborators where
  "video_null_env = sample_env\<lparr>generate_video_from_script := (\<lambda>s i. Inr None)\<rparr>"

definition instagram_fails_env :: collaborators where
  "instagram_fails_env = sample_env\<lparr>instagram_upload_video := (\<lambda>p c h. Inr None)\<rparr>"

definition uploads_fail_env :: collaborators where
  "uploads_fail_env =
     sample_env\<lparr>instagram_upload_video := (\<lambda>p c h. Inr None),
                youtube_upload_video := (\<lambda>p t d h. Inr None)\<rparr>"

definition script_without_description :: pydict where
  "script_without_description =
     [(u ''title'', PStr (u ''Widget in 30 seconds'')), (u ''script'', PStr (u ''Meet the widget.''))]"

definition no_description_env :: collaborators where
  "no_description_env =
     sample_env\<lparr>generate_video_script := (\<lambda>p. Inr (Some script_without_description))\<rparr>"

text \<open>The calls made when stage 7 starts.\<close>

definition publish_trace :: "call list" where
  "publish_trace = [Call_extract, Call_script, Call_speech, Call_duration, Call_subtitles,
                    Call_video, Call_compose]"

subsection \<open>Example services\<close>

text \<open>
  Status services for the two waiting loops: two non-final answers and then the final one,
  an immediate error, a service that never finishes, and one whose first query raises.
\<close>

definition graph_pending_twice :: graph_api where
  "graph_pending_twice =
     \<lparr>status_query = (\<lambda>k. if k < 2 then Inr (PStr (u ''IN_PROGRESS''))
                          else Inr (PStr (u ''FINISHED''))),
      status_seconds = (\<lambda>k. 1)\<rparr>"


definition graph_always_pending :: graph_api where
  "graph_always_pending =
     \<lparr>status_query = (\<lambda>k. Inr (PStr (u ''IN_PROGRESS''))), status_seconds = (\<lambda>k. 0)\<rparr>"


definition is_query :: "poll_event \<Rightarrow> bool" where
  "is_query ev = (case ev of Queried k \<Rightarrow> True | _ \<Rightarrow> False)"





subsection \<open>Example scrapers\<close>

text \<open>
  The ASCII digits as the digit class, and three scrapers over a page type with one
  element: one whose page and fields all answer, one whose request raises, and one whose
  rating extraction raises.
\<close>

definition ascii_digit :: "nat \<Rightarrow> bool" where
  "ascii_digit c = (48 \<le> c \<and> c \<le> 57)"

definition scraper_env_ok :: "unit scraper_env" where
  "scraper_env_ok =
     \<lparr>decimal_digit = ascii_digit,
      fetch_page = (\<lambda>url. Inr ()),
      extract_field = (\<lambda>name soup. Inr (PStr (u ''x'')))\<rparr>"

definition scraper_env_offline :: "unit scraper_env" where
  "scraper_env_offline =
     scraper_env_ok\<lparr>fetch_page := (\<lambda>url. Inl (Exn OSError (u ''Name or service not known'')))\<rparr>"

definition scraper_env_bad_rating :: "unit scraper_env" where
  "scraper_env_bad_rating =
     scraper_env_ok\<lparr>extract_field := (\<lambda>name soup. if name = ''_extract_rating''
        then Inl (Exn AttributeError (u ''get_text'')) else Inr (PStr (u ''x'')))\<rparr>"



definition script_without_title :: pydict where
  "script_without_title =
     [(u ''description'', PStr (u ''A short look at the widget'')),
      (u ''script'', PStr (u ''Meet the widget.''))]"

definition no_title_env :: collaborators where
  "no_title_env =
     sample_env\<lparr>generate_video_script := (\<lambda>p. Inr (Some script_without_title))\<rparr>"

definition script_without_script_key :: pydict where
  "script_without_script_key =
     [(u ''title'', PStr (u ''Widget in 30 seconds'')),
      (u ''description'', PStr (u ''A short look at the widget''))]"

definition no_script_key_env :: collaborators where
  "no_script_key_env =
     sample_env\<lparr>generate_video_script := (\<lambda>p. Inr (Some script_without_script_key))\<rparr>"

definition subtitled_env :: collaborators where
  "subtitled_env =
     sample_env\<lparr>generate_subtitles_from_script :=
                  (\<lambda>t d. Inr (Some (u ''output/subtitles/subtitles_1700000150.srt'')))\<rparr>"

definition sample_url :: pystr where
  "sample_url = u ''https://www.coupang.com/vp/products/123''"

section \<open>Properties\<close>

lemma u_eq_iff [simp]: "u s = u t \<longleftrightarrow> s = t"
  unfolding u_def by (rule inj_map_eq_map) (simp add: inj_on_def)

lemma u_eq_Nil [simp]: "u s = [] \<longleftrightarrow> s = []"
  by (simp add: u_def)

lemma os_unbound: "global_lookup main_globals ''os'' = Inl (Exn NameError (u ''name '' @ [39] @ u ''os'' @ [39] @ u '' is not defined''))"
  by (simp add: global_lookup_def main_globals_def)

subsection \<open>Composition\<close>


lemma subtitle_step_skips:
  assumes "\<not> truthy subtitle_path \<or> (''os'' \<in> set globals \<and> \<not> path_exists env subtitle_path)"
  shows "subtitle_step globals env video subtitle_path = Inr video"
  using assms by (auto simp: subtitle_step_def global_lookup_def)

lemma reconcile_cases:
  assumes "0 \<le> a_duration audio" and "0 \<le> v_duration video"
    and "reconcile_durations video audio = (video', audio')"
  shows "v_duration (set_audio video' audio') = min (a_duration audio) (v_duration video)
    \<and> v_audio (set_audio video' audio') = Some audio'
    \<and> a_duration audio' = min (a_duration audio) (v_duration video)
    \<and> (a_duration audio > v_duration video \<longrightarrow>
           video' = video \<and> audio' = subclip_audio audio 0 (v_duration video))
    \<and> (a_duration audio < v_duration video \<longrightarrow>
           audio' = audio \<and> video' = subclip_video video 0 (a_duration audio))
    \<and> (a_duration audio = v_duration video \<longrightarrow> video' = video \<and> audio' = audio)
    \<and> v_duration video' \<le> v_duration video \<and> a_duration audio' \<le> a_duration audio"
  using assms
  by (auto simp: reconcile_durations_def subclip_audio_def subclip_video_def set_audio_def
      split: if_splits)

lemma compose_success_run:
  assumes "VideoFileClip env video_path = Inr video"
    and "load_and_bind_audio env video audio_path = Inr (bound_clip, has_audio)"
    and "subtitle_step globals env bound_clip subtitle_path = Inr out_clip"
    and "write_videofile env out_clip (output_path_of now) = None"
  shows "compose_final_video globals env now video_path audio_path subtitle_path
    = (PStr (output_path_of now),
       Load_video video_path # (if has_audio then [Load_audio audio_path] else [])
         @ [Write_file out_clip (output_path_of now), Close_video]
         @ (if has_audio then [Close_audio] else []))"
  using assms by (simp add: compose_final_video_def compose_try_def)






lemma load_and_bind_audio_reconciles:
  assumes "truthy audio_path" and "AudioFileClip env audio_path = Inr audio"
    and "reconcile_durations video audio = (video', audio')"
  shows "load_and_bind_audio env video audio_path = Inr (set_audio video' audio', True)"
  using assms by (simp add: load_and_bind_audio_def)

text \<open>
  C1. In a composition that loaded a video of duration \<open>Dv\<close> and an audio of duration
  \<open>Da\<close>, both at least zero, the clip bound at line 153 has the duration \<open>min Da Dv\<close> and
  carries an audio track of that duration: a longer audio is cut to \<open>[0, Dv]\<close> and the
  video kept, a shorter audio is kept and the video cut to \<open>[0, Da]\<close>, equal durations
  change neither clip, and no track gets longer. Without a subtitle path that clip goes on
  unchanged, and the file written is the clip the subtitle step hands over.
\<close>

theorem composition_duration_min:
  assumes "VideoFileClip env video_path = Inr video"
    and "truthy audio_path" and "AudioFileClip env audio_path = Inr audio"
    and "0 \<le> a_duration audio" and "0 \<le> v_duration video"
  shows "\<exists>video' audio'.
      reconcile_durations video audio = (video', audio')
    \<and> load_and_bind_audio env video audio_path = Inr (set_audio video' audio', True)
    \<and> v_duration (set_audio video' audio') = min (a_duration audio) (v_duration video)
    \<and> v_audio (set_audio video' audio') = Some audio'
    \<and> a_duration audio' = min (a_duration audio) (v_duration video)
    \<and> (a_duration audio > v_duration video \<longrightarrow>
           video' = video \<and> audio' = subclip_audio audio 0 (v_duration video))
    \<and> (a_duration audio < v_duration video \<longrightarrow>
           audio' = audio \<and> video' = subclip_video video 0 (a_duration audio))
    \<and> (a_duration audio = v_duration video \<longrightarrow> video' = video \<and> audio' = audio)
    \<and> v_duration video' \<le> v_duration video \<and> a_duration audio' \<le> a_duration audio
    \<and> (\<not> truthy subtitle_path \<longrightarrow>
           subtitle_step globals env (set_audio video' audio') subtitle_path
             = Inr (set_audio video' audio'))
    \<and> (\<forall>out_clip.
           subtitle_step globals env (set_audio video' audio') subtitle_path = Inr out_clip
           \<and> write_videofile env out_clip (output_path_of now) = None \<longrightarrow>
           compose_final_video globals env now video_path audio_path subtitle_path
             = (PStr (output_path_of now),
                [Load_video video_path, Load_audio audio_path,
                 Write_file out_clip (output_path_of now), Close_video, Close_audio]))"
proof -
  obtain video' audio' where r: "reconcile_durations video audio = (video', audio')"
    by (cases "reconcile_durations video audio")
  have l: "load_and_bind_audio env video audio_path = Inr (set_audio video' audio', True)"
    by (rule load_and_bind_audio_reconciles [OF assms(2,3) r])
  have s: "\<not> truthy subtitle_path \<longrightarrow>
           subtitle_step globals env (set_audio video' audio') subtitle_path
             = Inr (set_audio video' audio')"
    by (simp add: subtitle_step_skips)
  have c: "\<forall>out_clip.
           subtitle_step globals env (set_audio video' audio') subtitle_path = Inr out_clip
           \<and> write_videofile env out_clip (output_path_of now) = None \<longrightarrow>
           compose_final_video globals env now video_path audio_path subtitle_path
             = (PStr (output_path_of now),
                [Load_video video_path, Load_audio audio_path,
                 Write_file out_clip (output_path_of now), Close_video, Close_audio])"
    using compose_success_run [OF assms(1) l] by simp
  from reconcile_cases [OF assms(4,5) r] r l s c show ?thesis by blast
qed

theorem composition_duration_min_witness:
  "compose_final_video main_globals sample_media 1700000200
      (PStr (u ''output/videos/final_video_1700000100.mp4''))
      (PStr (u ''output/audio/speech_1700000000.mp3'')) PNone
     = (PStr (output_path_of 1700000200),
        [Load_video (PStr (u ''output/videos/final_video_1700000100.mp4'')),
         Load_audio (PStr (u ''output/audio/speech_1700000000.mp3'')),
         Write_file (set_audio (subclip_video video_32s 0 28) speech_28s) (output_path_of 1700000200),
         Close_video, Close_audio])
   \<and> v_duration (set_audio (subclip_video video_32s 0 28) speech_28s) = 28
   \<and> v_audio (set_audio (subclip_video video_32s 0 28) speech_28s) = Some speech_28s
   \<and> a_duration speech_28s = 28 \<and> v_duration video_32s = 32"
proof -
  have r: "reconcile_durations video_32s speech_28s = (subclip_video video_32s 0 28, speech_28s)"
    by (simp add: reconcile_durations_def video_32s_def speech_28s_def)
  have d: "a_duration speech_28s = 28" "v_duration video_32s = 32"
    by (simp_all add: video_32s_def speech_28s_def)
  from composition_duration_min [of sample_media "PStr (u ''output/videos/final_video_1700000100.mp4'')"
      video_32s "PStr (u ''output/audio/speech_1700000000.mp3'')" speech_28s PNone main_globals
      1700000200]
  obtain video' audio' where
    "reconcile_durations video_32s speech_28s = (video', audio')"
    and m: "v_duration (set_audio video' audio') = min (a_duration speech_28s) (v_duration video_32s)"
      "v_audio (set_audio video' audio') = Some audio'"
    and s: "\<not> truthy PNone \<longrightarrow> subtitle_step main_globals sample_media (set_audio video' audio') PNone
             = Inr (set_audio video' audio')"
    and c: "\<forall>out_clip.
           subtitle_step main_globals sample_media (set_audio video' audio') PNone = Inr out_clip
           \<and> write_videofile sample_media out_clip (output_path_of 1700000200) = None \<longrightarrow>
           compose_final_video main_globals sample_media 1700000200
              (PStr (u ''output/videos/final_video_1700000100.mp4''))
              (PStr (u ''output/audio/speech_1700000000.mp3'')) PNone
             = (PStr (output_path_of 1700000200),
                [Load_video (PStr (u ''output/videos/final_video_1700000100.mp4'')),
                 Load_audio (PStr (u ''output/audio/speech_1700000000.mp3'')),
                 Write_file out_clip (output_path_of 1700000200), Close_video, Close_audio])"
    by (auto simp: sample_media_def d)
  with r have e: "video' = subclip_video video_32s 0 28" "audio' = speech_28s" by simp_all
  have w: "write_videofile sample_media (set_audio video' audio') (output_path_of 1700000200) = None"
    by (simp add: sample_media_def)
  from s c w m show ?thesis unfolding e by (simp add: d)
qed




text \<open>
  Without a subtitle path the subtitle step is skipped. With \<open>os\<close> among the names of
  the module, a path whose file does not exist is skipped too, and the composition is the
  one made without subtitles.
\<close>

lemma compose_without_subtitle_path:
  assumes "\<not> truthy subtitle_path"
  shows "compose_final_video globals env now video_path audio_path subtitle_path
       = compose_final_video globals env now video_path audio_path PNone"
  using assms
  by (simp add: compose_final_video_def compose_try_def subtitle_step_skips cong: sum.case_cong)

lemma compose_missing_file_with_os_bound:
  assumes "''os'' \<in> set globals" and "\<not> path_exists env subtitle_path"
  shows "compose_final_video globals env now video_path audio_path subtitle_path
       = compose_final_video globals env now video_path audio_path PNone"
  using assms
  by (simp add: compose_final_video_def compose_try_def subtitle_step_skips cong: sum.case_cong)

text \<open>
  C7 at a subtitle path whose file does not exist, with the names \<open>main.py\<close> binds:
  every other step would succeed (the same call without a subtitle path returns the
  output path), but the test of line 156 raises \<open>NameError\<close> on \<open>os\<close>, which the module
  never imports, and the composition returns \<open>None\<close> instead of skipping the subtitles.
\<close>

theorem compose_final_video_missing_subtitle_file:
  "\<not> path_exists sample_media (PStr (u ''output/subtitles/subtitles_1700000150.srt''))
   \<and> compose_final_video main_globals sample_media 1700000200 (PStr (u ''v.mp4'')) (PStr (u ''a.mp3''))
        (PStr (u ''output/subtitles/subtitles_1700000150.srt''))
     = (PNone, [Load_video (PStr (u ''v.mp4'')), Load_audio (PStr (u ''a.mp3'')),
                Log_error (msg_compose_failed @ u '': '' @ u ''name '' @ [39] @ u ''os'' @ [39]
                             @ u '' is not defined'')])
   \<and> fst (compose_final_video main_globals sample_media 1700000200 (PStr (u ''v.mp4'')) (PStr (u ''a.mp3''))
        PNone) = PStr (output_path_of 1700000200)"
  by (simp add: compose_final_video_def compose_try_def load_and_bind_audio_def subtitle_step_def
      os_unbound sample_media_def reconcile_durations_def speech_28s_def video_32s_def)

subsection \<open>Publishing\<close>

lemmas run_defs = bind_run_def call_run_def raise_run_def eval_run_def return_run_def

lemma upload_both_return:
  assumes "getitem sd ''description'' = Inr d" and "getitem sd ''title'' = Inr t"
    and "instagram_upload_video env vp d (dict_get sd ''hashtags'' (PList [])) = Inr ig"
    and "youtube_upload_video env vp t d (dict_get sd ''hashtags'' (PList [])) = Inr yt"
  shows "upload_to_social_media env vp sd tr =
           ([(u ''instagram'', instagram_entry ig), (u ''youtube'', youtube_entry yt)],
            tr @ [Call_instagram, Call_youtube])"
  using assms by (simp add: upload_to_social_media_def upload_try_def)

lemma upload_no_description:
  assumes "getitem sd ''description'' = Inl e"
  shows "upload_to_social_media env vp sd tr = ([(u ''error'', PStr (exn_str e))], tr)"
  using assms by (simp add: upload_to_social_media_def upload_try_def)

lemma upload_no_title:
  assumes "getitem sd ''description'' = Inr d"
    and "instagram_upload_video env vp d (dict_get sd ''hashtags'' (PList [])) = Inr ig"
    and "getitem sd ''title'' = Inl e"
  shows "upload_to_social_media env vp sd tr =
           ([(u ''instagram'', instagram_entry ig), (u ''error'', PStr (exn_str e))],
            tr @ [Call_instagram])"
  using assms by (simp add: upload_to_social_media_def upload_try_def)

lemma getitem_missing:
  "map_of d (u k) = None \<Longrightarrow> getitem d k = Inl (Exn KeyError ([39] @ u k @ [39]))"
  by (simp add: getitem_def)

lemma output_path_nonempty [simp]: "output_path_of now \<noteq> []"
  by (simp add: output_path_of_def)

lemma sample_script_keys:
  "getitem sample_script ''description'' = Inr (PStr (u ''A short look at the widget''))"
  "getitem sample_script ''title'' = Inr (PStr (u ''Widget in 30 seconds''))"
  "dict_get sample_script ''hashtags'' (PList []) = PList [PStr (u ''widget'')]"
  "getitem sample_script ''script'' = Inr (PStr (u ''Meet the widget.''))"
  by (simp_all add: getitem_def dict_get_def sample_script_def)

lemma script_without_title_keys:
  "getitem script_without_title ''description'' = Inr (PStr (u ''A short look at the widget''))"
  "map_of script_without_title (u ''title'') = None"
  "dict_get script_without_title ''hashtags'' (PList []) = PList []"
  "getitem script_without_title ''script'' = Inr (PStr (u ''Meet the widget.''))"
  by (simp_all add: getitem_def dict_get_def script_without_title_def)

lemma script_without_description_keys:
  "map_of script_without_description (u ''description'') = None"
  "getitem script_without_description ''script'' = Inr (PStr (u ''Meet the widget.''))"
  by (simp_all add: getitem_def script_without_description_def)

text \<open>
  C4, as the code has it. Both uploads run inside one \<open>try\<close>, Instagram first, with the
  script's \<open>description\<close> and \<open>title\<close> as arguments. When both keys are there and both
  calls return, both targets are attempted and recorded, each with \<open>success\<close> true exactly
  when the returned id is not \<open>None\<close>; so an upload that failed and returned \<open>None\<close> does
  not keep the other from being attempted and recorded. Without \<open>description\<close> no
  target is attempted and the result holds the text of the \<open>KeyError\<close> under \<open>error\<close>
  only. With \<open>description\<close> but without \<open>title\<close>, the Instagram entry is recorded,
  YouTube is not attempted and gets no entry, and \<open>error\<close> is added.
\<close>

theorem upload_to_social_media_outcomes:
  "(getitem script_data ''description'' = Inr d \<and> getitem script_data ''title'' = Inr t
      \<and> instagram_upload_video env vp d (dict_get script_data ''hashtags'' (PList [])) = Inr ig
      \<and> youtube_upload_video env vp t d (dict_get script_data ''hashtags'' (PList [])) = Inr yt \<longrightarrow>
      upload_to_social_media env vp script_data tr =
        ([(u ''instagram'',
             PDict [(u ''success'', PBool (ig \<noteq> None)), (u ''media_id'', str_val ig)]),
          (u ''youtube'',
             PDict [(u ''success'', PBool (yt \<noteq> None)), (u ''video_id'', str_val yt)])],
         tr @ [Call_instagram, Call_youtube]))
   \<and> (map_of script_data (u ''description'') = None \<longrightarrow>
      upload_to_social_media env vp script_data tr =
        ([(u ''error'', PStr ([39] @ u ''description'' @ [39]))], tr))
   \<and> (getitem script_data ''description'' = Inr d
      \<and> instagram_upload_video env vp d (dict_get script_data ''hashtags'' (PList [])) = Inr ig
      \<and> map_of script_data (u ''title'') = None \<longrightarrow>
      upload_to_social_media env vp script_data tr =
        ([(u ''instagram'',
             PDict [(u ''success'', PBool (ig \<noteq> None)), (u ''media_id'', str_val ig)]),
          (u ''error'', PStr ([39] @ u ''title'' @ [39]))],
         tr @ [Call_instagram]))"
proof -
  have a: "getitem script_data ''description'' = Inr d \<and> getitem script_data ''title'' = Inr t
      \<and> instagram_upload_video env vp d (dict_get script_data ''hashtags'' (PList [])) = Inr ig
      \<and> youtube_upload_video env vp t d (dict_get script_data ''hashtags'' (PList [])) = Inr yt \<longrightarrow>
      upload_to_social_media env vp script_data tr =
        ([(u ''instagram'',
             PDict [(u ''success'', PBool (ig \<noteq> None)), (u ''media_id'', str_val ig)]),
          (u ''youtube'',
             PDict [(u ''success'', PBool (yt \<noteq> None)), (u ''video_id'', str_val yt)])],
         tr @ [Call_instagram, Call_youtube])"
    using upload_both_return [of script_data d t env vp ig yt tr]
    by (simp add: instagram_entry_def youtube_entry_def)
  have b: "map_of script_data (u ''description'') = None \<longrightarrow>
      upload_to_social_media env vp script_data tr =
        ([(u ''error'', PStr ([39] @ u ''description'' @ [39]))], tr)"
    using upload_no_description [of script_data "Exn KeyError ([39] @ u ''description'' @ [39])" env vp tr]
      getitem_missing [of script_data "''description''"]
    by simp
  have c: "getitem script_data ''description'' = Inr d
      \<and> instagram_upload_video env vp d (dict_get script_data ''hashtags'' (PList [])) = Inr ig
      \<and> map_of script_data (u ''title'') = None \<longrightarrow>
      upload_to_social_media env vp script_data tr =
        ([(u ''instagram'',
             PDict [(u ''success'', PBool (ig \<noteq> None)), (u ''media_id'', str_val ig)]),
          (u ''error'', PStr ([39] @ u ''title'' @ [39]))],
         tr @ [Call_instagram])"
    using upload_no_title [of script_data d env vp ig "Exn KeyError ([39] @ u ''title'' @ [39])" tr]
      getitem_missing [of script_data "''title''"]
    by (simp add: instagram_entry_def)
  from a b c show ?thesis by (intro conjI) assumption+
qed

theorem upload_to_social_media_outcomes_witness:
  "upload_to_social_media instagram_fails_env (PStr (u ''final.mp4'')) sample_script [] =
     ([(u ''instagram'', PDict [(u ''success'', PBool False), (u ''media_id'', PNone)]),
       (u ''youtube'', PDict [(u ''success'', PBool True), (u ''video_id'', PStr (u ''dQw4w9WgXcQ''))])],
      [Call_instagram, Call_youtube])
   \<and> upload_to_social_media sample_env (PStr (u ''final.mp4'')) script_without_description [] =
     ([(u ''error'', PStr ([39] @ u ''description'' @ [39]))], [])
   \<and> upload_to_social_media sample_env (PStr (u ''final.mp4'')) script_without_title [] =
     ([(u ''instagram'',
          PDict [(u ''success'', PBool True), (u ''media_id'', PStr (u ''17900000000000001''))]),
       (u ''error'', PStr ([39] @ u ''title'' @ [39]))],
      [Call_instagram])"
proof -
  have a: "upload_to_social_media instagram_fails_env (PStr (u ''final.mp4'')) sample_script [] =
     ([(u ''instagram'', PDict [(u ''success'', PBool False), (u ''media_id'', PNone)]),
       (u ''youtube'', PDict [(u ''success'', PBool True), (u ''video_id'', PStr (u ''dQw4w9WgXcQ''))])],
      [Call_instagram, Call_youtube])"
    using upload_to_social_media_outcomes [where script_data = sample_script
        and d = "PStr (u ''A short look at the widget'')" and t = "PStr (u ''Widget in 30 seconds'')"
        and env = instagram_fails_env and vp = "PStr (u ''final.mp4'')" and ig = None
        and yt = "Some (u ''dQw4w9WgXcQ'')" and tr = "[]"]
    by (simp add: instagram_fails_env_def sample_env_def str_val_def sample_script_keys)
  have b: "upload_to_social_media sample_env (PStr (u ''final.mp4'')) script_without_description [] =
     ([(u ''error'', PStr ([39] @ u ''description'' @ [39]))], [])"
    using upload_to_social_media_outcomes [where script_data = script_without_description
        and env = sample_env and vp = "PStr (u ''final.mp4'')" and tr = "[]",
        THEN conjunct2, THEN conjunct1]
    by (simp add: script_without_description_keys)
  have c: "upload_to_social_media sample_env (PStr (u ''final.mp4'')) script_without_title [] =
     ([(u ''instagram'',
          PDict [(u ''success'', PBool True), (u ''media_id'', PStr (u ''17900000000000001''))]),
       (u ''error'', PStr ([39] @ u ''title'' @ [39]))],
      [Call_instagram])"
    using upload_to_social_media_outcomes [where script_data = script_without_title
        and d = "PStr (u ''A short look at the widget'')"
        and env = sample_env and vp = "PStr (u ''final.mp4'')"
        and ig = "Some (u ''17900000000000001'')" and tr = "[]",
        THEN conjunct2, THEN conjunct2]
    by (simp add: script_without_title_keys sample_env_def str_val_def)
  from a b c show ?thesis by (intro conjI) assumption+
qed

text \<open>
  C4 as stated fails: for a script without \<open>description\<close> no target is attempted, and
  for a script without \<open>title\<close> the YouTube upload is never called and YouTube has no
  entry in the result.
\<close>

theorem upload_stops_at_missing_key:
  "upload_to_social_media sample_env (PStr (u ''final.mp4'')) script_without_description [] =
     ([(u ''error'', PStr ([39] @ u ''description'' @ [39]))], [])
   \<and> upload_to_social_media sample_env (PStr (u ''final.mp4'')) script_without_title [] =
     ([(u ''instagram'',
          PDict [(u ''success'', PBool True), (u ''media_id'', PStr (u ''17900000000000001''))]),
       (u ''error'', PStr ([39] @ u ''title'' @ [39]))],
      [Call_instagram])"
  by (simp add: upload_to_social_media_def upload_try_def script_without_description_keys
      script_without_title_keys getitem_missing sample_env_def instagram_entry_def str_val_def)

subsection \<open>The pipeline\<close>

lemma process_try_success_shape:
  "process_try env url tr = (Inr r, tr') \<Longrightarrow>
     \<exists>pinfo sd fv ur. r = success_result env pinfo sd fv ur"
  by (auto simp: process_try_def speech_subtitles_video_def compose_and_publish_def run_defs
      split: sum.splits prod.splits if_splits)

lemma process_extract_falsy:
  "extract_product_info env url = Inr pinfo \<Longrightarrow> \<not> truthy (dict_val pinfo) \<Longrightarrow>
   process_coupang_link env url = (failure_result env (Exn Exception msg_extract_failed), [Call_extract])"
  by (simp add: process_coupang_link_def process_try_def run_defs)

lemma process_script_falsy:
  "extract_product_info env url = Inr pinfo \<Longrightarrow> truthy (dict_val pinfo) \<Longrightarrow>
   generate_video_script env (the_dict pinfo) = Inr sd \<Longrightarrow> \<not> truthy (dict_val sd) \<Longrightarrow>
   process_coupang_link env url =
     (failure_result env (Exn Exception msg_script_failed), [Call_extract, Call_script])"
  by (simp add: process_coupang_link_def process_try_def run_defs)

lemma process_speech_falsy:
  "extract_product_info env url = Inr pinfo \<Longrightarrow> truthy (dict_val pinfo) \<Longrightarrow>
   generate_video_script env (the_dict pinfo) = Inr sd \<Longrightarrow> truthy (dict_val sd) \<Longrightarrow>
   getitem (the_dict sd) ''script'' = Inr stext \<Longrightarrow>
   generate_speech env stext (u ''alloy'') = Inr ap \<Longrightarrow> \<not> truthy (str_val ap) \<Longrightarrow>
   process_coupang_link env url =
     (failure_result env (Exn Exception msg_speech_failed), [Call_extract, Call_script, Call_speech])"
  by (simp add: process_coupang_link_def process_try_def speech_subtitles_video_def run_defs)

lemma process_video_falsy:
  "extract_product_info env url = Inr pinfo \<Longrightarrow> truthy (dict_val pinfo) \<Longrightarrow>
   generate_video_script env (the_dict pinfo) = Inr sd \<Longrightarrow> truthy (dict_val sd) \<Longrightarrow>
   getitem (the_dict sd) ''script'' = Inr stext \<Longrightarrow>
   generate_speech env stext (u ''alloy'') = Inr ap \<Longrightarrow> truthy (str_val ap) \<Longrightarrow>
   get_audio_duration env (the_str ap) = Inr dur \<Longrightarrow>
   generate_subtitles_from_script env stext dur = Inr sp \<Longrightarrow>
   generate_video_from_script env (the_dict sd) (dict_get (the_dict pinfo) ''images'' (PList [])) = Inr vp \<Longrightarrow>
   \<not> truthy (str_val vp) \<Longrightarrow>
   process_coupang_link env url =
     (failure_result env (Exn Exception msg_video_failed),
      [Call_extract, Call_script, Call_speech, Call_duration, Call_subtitles, Call_video])"
  by (simp add: process_coupang_link_def process_try_def speech_subtitles_video_def run_defs)

lemma process_reaches_publish:
  "extract_product_info env url = Inr pinfo \<Longrightarrow> truthy (dict_val pinfo) \<Longrightarrow>
   generate_video_script env (the_dict pinfo) = Inr sd \<Longrightarrow> truthy (dict_val sd) \<Longrightarrow>
   getitem (the_dict sd) ''script'' = Inr stext \<Longrightarrow>
   generate_speech env stext (u ''alloy'') = Inr ap \<Longrightarrow> truthy (str_val ap) \<Longrightarrow>
   get_audio_duration env (the_str ap) = Inr dur \<Longrightarrow>
   generate_subtitles_from_script env stext dur = Inr sp \<Longrightarrow>
   generate_video_from_script env (the_dict sd) (dict_get (the_dict pinfo) ''images'' (PList [])) = Inr vp \<Longrightarrow>
   truthy (str_val vp) \<Longrightarrow>
   fst (compose_final_video main_globals (media env) (time_compose env) (PStr (the_str vp)) (PStr (the_str ap)) (str_val sp)) = final \<Longrightarrow>
   truthy final \<Longrightarrow>
   upload_to_social_media env final (the_dict sd)
      [Call_extract, Call_script, Call_speech, Call_duration, Call_subtitles, Call_video, Call_compose] = (results, tr) \<Longrightarrow>
   process_coupang_link env url = (success_result env (the_dict pinfo) (the_dict sd) final results, tr)"
  by (simp add: process_coupang_link_def process_try_def speech_subtitles_video_def
       compose_and_publish_def run_defs)

lemmas pipeline_defs = process_coupang_link_def process_try_def speech_subtitles_video_def
  compose_and_publish_def run_defs upload_to_social_media_def upload_try_def
  compose_final_video_def compose_try_def load_and_bind_audio_def subtitle_step_def
  reconcile_durations_def

lemma sample_run:
  "process_coupang_link sample_env sample_url =
     (success_result sample_env sample_product sample_script (PStr (output_path_of 1700000200))
        [(u ''instagram'', instagram_entry (Some (u ''17900000000000001''))),
         (u ''youtube'', youtube_entry (Some (u ''dQw4w9WgXcQ'')))],
      [Call_extract, Call_script, Call_speech, Call_duration, Call_subtitles, Call_video,
       Call_compose, Call_instagram, Call_youtube])"
  by (simp add: pipeline_defs sample_env_def sample_media_def speech_28s_def video_32s_def
        dict_val_def str_val_def the_dict_def the_str_def getitem_def dict_get_def
        sample_product_def sample_script_def)

lemma process_script_key_error:
  "extract_product_info env url = Inr pinfo \<Longrightarrow> truthy (dict_val pinfo) \<Longrightarrow>
   generate_video_script env (the_dict pinfo) = Inr sd \<Longrightarrow> truthy (dict_val sd) \<Longrightarrow>
   getitem (the_dict sd) ''script'' = Inl e \<Longrightarrow>
   process_coupang_link env url = (failure_result env e, [Call_extract, Call_script])"
  by (simp add: process_coupang_link_def process_try_def speech_subtitles_video_def run_defs)

lemma process_compose_falsy:
  "extract_product_info env url = Inr pinfo \<Longrightarrow> truthy (dict_val pinfo) \<Longrightarrow>
   generate_video_script env (the_dict pinfo) = Inr sd \<Longrightarrow> truthy (dict_val sd) \<Longrightarrow>
   getitem (the_dict sd) ''script'' = Inr stext \<Longrightarrow>
   generate_speech env stext (u ''alloy'') = Inr ap \<Longrightarrow> truthy (str_val ap) \<Longrightarrow>
   get_audio_duration env (the_str ap) = Inr dur \<Longrightarrow>
   generate_subtitles_from_script env stext dur = Inr sp \<Longrightarrow>
   generate_video_from_script env (the_dict sd) (dict_get (the_dict pinfo) ''images'' (PList [])) = Inr vp \<Longrightarrow>
   truthy (str_val vp) \<Longrightarrow>
   \<not> truthy (fst (compose_final_video main_globals (media env) (time_compose env)
                     (PStr (the_str vp)) (PStr (the_str ap)) (str_val sp))) \<Longrightarrow>
   process_coupang_link env url = (failure_result env (Exn Exception msg_compose_failed), publish_trace)"
  by (simp add: process_coupang_link_def process_try_def speech_subtitles_video_def
       compose_and_publish_def run_defs publish_trace_def)

lemma truthy_dict_val: "truthy (dict_val d) \<longleftrightarrow> (\<exists>kvs. d = Some kvs \<and> kvs \<noteq> [])"
  by (cases d) (simp_all add: dict_val_def)

lemma truthy_str_val: "truthy (str_val s) \<longleftrightarrow> (\<exists>t. s = Some t \<and> t \<noteq> [])"
  by (cases s) (simp_all add: str_val_def)

lemma compose_and_publish_success:
  "compose_and_publish env pinfo sd vp ap sp tr = (Inr r, tr') \<Longrightarrow>
   truthy (fst (compose_final_video main_globals (media env) (time_compose env)
                  (PStr vp) (PStr ap) (str_val sp)))
   \<and> (\<exists>results.
         upload_to_social_media env
           (fst (compose_final_video main_globals (media env) (time_compose env)
                   (PStr vp) (PStr ap) (str_val sp))) sd (tr @ [Call_compose]) = (results, tr')
       \<and> r = success_result env pinfo sd
             (fst (compose_final_video main_globals (media env) (time_compose env)
                     (PStr vp) (PStr ap) (str_val sp))) results)"
  by (auto simp: compose_and_publish_def run_defs split: if_splits prod.splits)

lemma speech_subtitles_video_success:
  "speech_subtitles_video env pinfo sd tr = (Inr r, tr') \<Longrightarrow>
   \<exists>stext ap dur sp vp.
     getitem sd ''script'' = Inr stext
     \<and> generate_speech env stext (u ''alloy'') = Inr (Some ap) \<and> ap \<noteq> []
     \<and> get_audio_duration env ap = Inr dur
     \<and> generate_subtitles_from_script env stext dur = Inr sp
     \<and> generate_video_from_script env sd (dict_get pinfo ''images'' (PList [])) = Inr (Some vp)
     \<and> vp \<noteq> []
     \<and> compose_and_publish env pinfo sd vp ap sp
           (tr @ [Call_speech, Call_duration, Call_subtitles, Call_video]) = (Inr r, tr')"
  by (auto simp: speech_subtitles_video_def run_defs truthy_str_val the_str_def
      split: if_splits prod.splits sum.splits)

lemma process_try_success:
  "process_try env url [] = (Inr r, tr) \<Longrightarrow>
   \<exists>pinfo sd stext ap dur sp vp final results.
     extract_product_info env url = Inr (Some pinfo) \<and> pinfo \<noteq> []
     \<and> generate_video_script env pinfo = Inr (Some sd) \<and> sd \<noteq> []
     \<and> getitem sd ''script'' = Inr stext
     \<and> generate_speech env stext (u ''alloy'') = Inr (Some ap) \<and> ap \<noteq> []
     \<and> get_audio_duration env ap = Inr dur
     \<and> generate_subtitles_from_script env stext dur = Inr sp
     \<and> generate_video_from_script env sd (dict_get pinfo ''images'' (PList [])) = Inr (Some vp)
     \<and> vp \<noteq> []
     \<and> final = fst (compose_final_video main_globals (media env) (time_compose env)
                       (PStr vp) (PStr ap) (str_val sp))
     \<and> truthy final
     \<and> upload_to_social_media env final sd publish_trace = (results, tr)
     \<and> r = success_result env pinfo sd final results"
proof -
  assume run: "process_try env url [] = (Inr r, tr)"
  then obtain pinfo sd where
    e: "extract_product_info env url = Inr (Some pinfo)" "pinfo \<noteq> []"
    and s: "generate_video_script env pinfo = Inr (Some sd)" "sd \<noteq> []"
    and rest: "speech_subtitles_video env pinfo sd [Call_extract, Call_script] = (Inr r, tr)"
    by (auto simp: process_try_def run_defs truthy_dict_val the_dict_def
        split: if_splits prod.splits sum.splits)
  from speech_subtitles_video_success [OF rest] obtain stext ap dur sp vp where
    m: "getitem sd ''script'' = Inr stext"
      "generate_speech env stext (u ''alloy'') = Inr (Some ap)" "ap \<noteq> []"
      "get_audio_duration env ap = Inr dur"
      "generate_subtitles_from_script env stext dur = Inr sp"
      "generate_video_from_script env sd (dict_get pinfo ''images'' (PList [])) = Inr (Some vp)"
      "vp \<noteq> []"
    and cp: "compose_and_publish env pinfo sd vp ap sp
           ([Call_extract, Call_script] @ [Call_speech, Call_duration, Call_subtitles, Call_video])
             = (Inr r, tr)"
    by blast
  from compose_and_publish_success [OF cp] e s m show ?thesis
    by (auto simp: publish_trace_def)
qed

lemma sample_compose:
  "fst (compose_final_video main_globals sample_media 1700000200
          (PStr (u ''output/videos/final_video_1700000100.mp4''))
          (PStr (u ''output/audio/speech_1700000000.mp3'')) PNone)
     = PStr (output_path_of 1700000200)"
  by (simp add: compose_final_video_def compose_try_def load_and_bind_audio_def subtitle_step_def
      sample_media_def reconcile_durations_def speech_28s_def video_32s_def)

lemma output_path_truthy: "truthy (PStr (output_path_of now))"
  by simp

lemma sample_compose_with_subtitles:
  "fst (compose_final_video main_globals sample_media 1700000200
          (PStr (u ''output/videos/final_video_1700000100.mp4''))
          (PStr (u ''output/audio/speech_1700000000.mp3''))
          (PStr (u ''output/subtitles/subtitles_1700000150.srt''))) = PNone"
  by (simp add: compose_final_video_def compose_try_def load_and_bind_audio_def subtitle_step_def
      os_unbound sample_media_def reconcile_durations_def speech_28s_def video_32s_def)

lemma no_script_key_try:
  "process_try no_script_key_env sample_url [] =
     (Inl (Exn KeyError ([39] @ u ''script'' @ [39])), [Call_extract, Call_script])"
  by (simp add: process_try_def speech_subtitles_video_def run_defs no_script_key_env_def
      sample_env_def dict_val_def the_dict_def getitem_def sample_product_def
      script_without_script_key_def)

lemma sample_try:
  "process_try sample_env sample_url [] =
     (Inr (success_result sample_env sample_product sample_script (PStr (output_path_of 1700000200))
        [(u ''instagram'', instagram_entry (Some (u ''17900000000000001''))),
         (u ''youtube'', youtube_entry (Some (u ''dQw4w9WgXcQ'')))]),
      [Call_extract, Call_script, Call_speech, Call_duration, Call_subtitles, Call_video,
       Call_compose, Call_instagram, Call_youtube])"
  using sample_run
  by (cases "process_try sample_env sample_url []")
     (auto simp: process_coupang_link_def success_result_def failure_result_def split: sum.splits)

text \<open>
  C2, as the code has it. When the extraction, script, speech or video stage returns
  \<open>None\<close> (or another falsy value) after the stages before it succeeded, the result has
  \<open>success\<close> false and \<open>error\<close> set to the text raised for that stage, and no later
  collaborator is called; the four texts are the Korean literals of lines 59, 66, 76 and
  93 and differ from each other. The subtitle stage is not tested: whatever it returns,
  the video stage is called next.
\<close>

theorem process_coupang_link_stage_failures:
  "(extract_product_info env url = Inr pinfo \<and> \<not> truthy (dict_val pinfo) \<longrightarrow>
      process_coupang_link env url
        = (failure_result env (Exn Exception msg_extract_failed), [Call_extract]))
   \<and> (extract_product_info env url = Inr pinfo \<and> truthy (dict_val pinfo)
       \<and> generate_video_script env (the_dict pinfo) = Inr sd \<and> \<not> truthy (dict_val sd) \<longrightarrow>
      process_coupang_link env url
        = (failure_result env (Exn Exception msg_script_failed), [Call_extract, Call_script]))
   \<and> (extract_product_info env url = Inr pinfo \<and> truthy (dict_val pinfo)
       \<and> generate_video_script env (the_dict pinfo) = Inr sd \<and> truthy (dict_val sd)
       \<and> getitem (the_dict sd) ''script'' = Inr stext
       \<and> generate_speech env stext (u ''alloy'') = Inr ap \<and> \<not> truthy (str_val ap) \<longrightarrow>
      process_coupang_link env url
        = (failure_result env (Exn Exception msg_speech_failed),
           [Call_extract, Call_script, Call_speech]))
   \<and> (extract_product_info env url = Inr pinfo \<and> truthy (dict_val pinfo)
       \<and> generate_video_script env (the_dict pinfo) = Inr sd \<and> truthy (dict_val sd)
       \<and> getitem (the_dict sd) ''script'' = Inr stext
       \<and> generate_speech env stext (u ''alloy'') = Inr ap \<and> truthy (str_val ap)
       \<and> get_audio_duration env (the_str ap) = Inr dur
       \<and> generate_subtitles_from_script env stext dur = Inr sp
       \<and> generate_video_from_script env (the_dict sd)
             (dict_get (the_dict pinfo) ''images'' (PList [])) = Inr vp
       \<and> \<not> truthy (str_val vp) \<longrightarrow>
      process_coupang_link env url
        = (failure_result env (Exn Exception msg_video_failed),
           [Call_extract, Call_script, Call_speech, Call_duration, Call_subtitles, Call_video]))
   \<and> failure_result env (Exn Exception m)
        = [(u ''success'', PBool False), (u ''error'', PStr m),
           (u ''processing_time'', PFloat (time_result env))]
   \<and> distinct [msg_extract_failed, msg_script_failed, msg_speech_failed, msg_video_failed]"
proof -
  have "distinct [msg_extract_failed, msg_script_failed, msg_speech_failed, msg_video_failed]"
    by (simp add: msg_extract_failed_def msg_script_failed_def msg_speech_failed_def
        msg_video_failed_def)
  moreover have "failure_result env (Exn Exception m)
        = [(u ''success'', PBool False), (u ''error'', PStr m),
           (u ''processing_time'', PFloat (time_result env))]"
    by (simp add: failure_result_def)
  ultimately show ?thesis
    using process_extract_falsy [of env url pinfo] process_script_falsy [of env url pinfo sd]
      process_speech_falsy [of env url pinfo sd stext ap]
      process_video_falsy [of env url pinfo sd stext ap dur sp vp]
    by blast
qed

theorem process_coupang_link_stage_failures_witness:
  "process_coupang_link extract_null_env sample_url
     = (failure_result extract_null_env (Exn Exception msg_extract_failed), [Call_extract])
   \<and> process_coupang_link script_null_env sample_url
     = (failure_result script_null_env (Exn Exception msg_script_failed), [Call_extract, Call_script])
   \<and> process_coupang_link speech_null_env sample_url
     = (failure_result speech_null_env (Exn Exception msg_speech_failed),
        [Call_extract, Call_script, Call_speech])
   \<and> process_coupang_link video_null_env sample_url
     = (failure_result video_null_env (Exn Exception msg_video_failed),
        [Call_extract, Call_script, Call_speech, Call_duration, Call_subtitles, Call_video])"
proof -
  have a: "process_coupang_link extract_null_env sample_url
     = (failure_result extract_null_env (Exn Exception msg_extract_failed), [Call_extract])"
    using process_coupang_link_stage_failures [of extract_null_env sample_url None]
    by (simp add: extract_null_env_def sample_env_def dict_val_def)
  have b: "process_coupang_link script_null_env sample_url
     = (failure_result script_null_env (Exn Exception msg_script_failed), [Call_extract, Call_script])"
    using process_coupang_link_stage_failures [of script_null_env sample_url "Some sample_product" None]
    by (simp add: script_null_env_def sample_env_def dict_val_def sample_product_def)
  have c: "process_coupang_link speech_null_env sample_url
     = (failure_result speech_null_env (Exn Exception msg_speech_failed),
        [Call_extract, Call_script, Call_speech])"
    using process_coupang_link_stage_failures [of speech_null_env sample_url "Some sample_product"
        "Some sample_script" "PStr (u ''Meet the widget.'')" None]
    by (simp add: speech_null_env_def sample_env_def dict_val_def str_val_def the_dict_def
        getitem_def sample_product_def sample_script_def)
  have d: "process_coupang_link video_null_env sample_url
     = (failure_result video_null_env (Exn Exception msg_video_failed),
        [Call_extract, Call_script, Call_speech, Call_duration, Call_subtitles, Call_video])"
    using process_coupang_link_stage_failures [of video_null_env sample_url "Some sample_product"
        "Some sample_script" "PStr (u ''Meet the widget.'')"
        "Some (u ''output/audio/speech_1700000000.mp3'')" 28 None None]
    by (simp add: video_null_env_def sample_env_def dict_val_def str_val_def the_dict_def the_str_def
        getitem_def sample_product_def sample_script_def)
  from a b c d show ?thesis by blast
qed

text \<open>
  C2 as stated fails twice: a run whose subtitle stage returns \<open>None\<close> ends with
  \<open>success\<close> true, and the text reported when extraction returns \<open>None\<close> does not
  contain \<open>extract\<close>.
\<close>

theorem subtitles_null_is_not_a_failure:
  "generate_subtitles_from_script sample_env (PStr (u ''Meet the widget.'')) 28 = Inr None
  \<and> map_of (fst (process_coupang_link sample_env sample_url)) (u ''success'') = Some (PBool True)
  \<and> fst (process_coupang_link extract_null_env sample_url)
       = [(u ''success'', PBool False), (u ''error'', PStr msg_extract_failed),
          (u ''processing_time'', PFloat 1700000300)]
  \<and> \<not> contains msg_extract_failed (u ''extract'')"
proof -
  have a: "generate_subtitles_from_script sample_env (PStr (u ''Meet the widget.'')) 28 = Inr None"
    by (simp add: sample_env_def)
  have b: "map_of (fst (process_coupang_link sample_env sample_url)) (u ''success'') = Some (PBool True)"
    by (simp add: sample_run success_result_def)
  have "extract_product_info extract_null_env sample_url = Inr None"
    by (simp add: extract_null_env_def)
  then have "process_coupang_link extract_null_env sample_url
      = (failure_result extract_null_env (Exn Exception msg_extract_failed), [Call_extract])"
    by (rule process_extract_falsy) (simp add: dict_val_def)
  then have c: "fst (process_coupang_link extract_null_env sample_url)
       = [(u ''success'', PBool False), (u ''error'', PStr msg_extract_failed),
          (u ''processing_time'', PFloat 1700000300)]"
    by (simp add: failure_result_def extract_null_env_def sample_env_def)
  have d: "\<not> contains msg_extract_failed (u ''extract'')"
    by (simp add: msg_extract_failed_def u_def)
  from a b c d show ?thesis by blast
qed

lemma process_result_two_shapes:
  "\<exists>r tr. process_coupang_link env url = (r, tr) \<and>
   ((\<exists>pinfo sd fv ur. r = [(u ''success'', PBool True), (u ''product_info'', PDict pinfo),
        (u ''script_data'', PDict sd), (u ''video_path'', fv), (u ''upload_results'', PDict ur),
        (u ''processing_time'', PFloat (time_result env))])
    \<or> (\<exists>e. process_try env url [] = (Inl e, tr) \<and>
          r = [(u ''success'', PBool False), (u ''error'', PStr (exn_str e)),
               (u ''processing_time'', PFloat (time_result env))]))"
proof (cases "process_try env url []")
  case (Pair x tr)
  show ?thesis
  proof (cases x)
    case (Inl e)
    with Pair show ?thesis
      by (simp add: process_coupang_link_def failure_result_def)
  next
    case (Inr r)
    with Pair process_try_success_shape [of env url "[]" r tr] show ?thesis
      by (auto simp: process_coupang_link_def success_result_def)
  qed
qed

text \<open>
  C6. Every call of \<open>process_coupang_link\<close> returns a dict of one of two shapes. When the
  body of the \<open>try\<close> raised \<open>e\<close>, the dict has the three keys \<open>success\<close> (false),
  \<open>error\<close> (the text of \<open>e\<close>) and \<open>processing_time\<close>: so for a script without the key
  \<open>script\<close>, and for a composition that returned \<open>None\<close>. When the body returned, every
  stage had answered, the composition had returned a path, and the dict has the six keys
  \<open>success\<close> (true), \<open>product_info\<close>, \<open>script_data\<close>, \<open>video_path\<close>,
  \<open>upload_results\<close> and \<open>processing_time\<close>, holding what those stages produced.
\<close>

theorem process_coupang_link_result_shape:
  "(\<exists>r tr. process_coupang_link env url = (r, tr) \<and>
      ((\<exists>pinfo sd fv ur. r = [(u ''success'', PBool True), (u ''product_info'', PDict pinfo),
          (u ''script_data'', PDict sd), (u ''video_path'', fv), (u ''upload_results'', PDict ur),
          (u ''processing_time'', PFloat (time_result env))])
       \<or> (\<exists>e. process_try env url [] = (Inl e, tr) \<and>
             r = [(u ''success'', PBool False), (u ''error'', PStr (exn_str e)),
                  (u ''processing_time'', PFloat (time_result env))])))
   \<and> (process_try env url [] = (Inl e, tr) \<longrightarrow>
      process_coupang_link env url =
        ([(u ''success'', PBool False), (u ''error'', PStr (exn_str e)),
          (u ''processing_time'', PFloat (time_result env))], tr))
   \<and> (process_try env url [] = (Inr r, tr) \<longrightarrow>
      process_coupang_link env url = (r, tr)
      \<and> (\<exists>pinfo sd stext ap dur sp vp final results.
           extract_product_info env url = Inr (Some pinfo) \<and> pinfo \<noteq> []
           \<and> generate_video_script env pinfo = Inr (Some sd) \<and> sd \<noteq> []
           \<and> getitem sd ''script'' = Inr stext
           \<and> generate_speech env stext (u ''alloy'') = Inr (Some ap) \<and> ap \<noteq> []
           \<and> get_audio_duration env ap = Inr dur
           \<and> generate_subtitles_from_script env stext dur = Inr sp
           \<and> generate_video_from_script env sd (dict_get pinfo ''images'' (PList [])) = Inr (Some vp)
           \<and> vp \<noteq> []
           \<and> final = fst (compose_final_video main_globals (media env) (time_compose env)
                       (PStr vp) (PStr ap) (str_val sp))
           \<and> truthy final
           \<and> upload_to_social_media env final sd publish_trace = (results, tr)
           \<and> r = [(u ''success'', PBool True), (u ''product_info'', PDict pinfo),
                 (u ''script_data'', PDict sd), (u ''video_path'', final),
                 (u ''upload_results'', PDict results),
                 (u ''processing_time'', PFloat (time_result env))]))
   \<and> (extract_product_info env url = Inr (Some pinfo) \<and> pinfo \<noteq> []
       \<and> generate_video_script env pinfo = Inr (Some sd) \<and> sd \<noteq> []
       \<and> map_of sd (u ''script'') = None \<longrightarrow>
      process_coupang_link env url =
        ([(u ''success'', PBool False), (u ''error'', PStr ([39] @ u ''script'' @ [39])),
          (u ''processing_time'', PFloat (time_result env))],
         [Call_extract, Call_script]))
   \<and> (extract_product_info env url = Inr (Some pinfo) \<and> pinfo \<noteq> []
       \<and> generate_video_script env pinfo = Inr (Some sd) \<and> sd \<noteq> []
       \<and> getitem sd ''script'' = Inr stext
       \<and> generate_speech env stext (u ''alloy'') = Inr (Some ap) \<and> ap \<noteq> []
       \<and> get_audio_duration env ap = Inr dur
       \<and> generate_subtitles_from_script env stext dur = Inr sp
       \<and> generate_video_from_script env sd (dict_get pinfo ''images'' (PList [])) = Inr (Some vp)
       \<and> vp \<noteq> []
       \<and> \<not> truthy (fst (compose_final_video main_globals (media env) (time_compose env)
                        (PStr vp) (PStr ap) (str_val sp))) \<longrightarrow>
      process_coupang_link env url =
        ([(u ''success'', PBool False), (u ''error'', PStr (msg_compose_failed)),
          (u ''processing_time'', PFloat (time_result env))], publish_trace))
   \<and> (extract_product_info env url = Inr (Some pinfo) \<and> pinfo \<noteq> []
       \<and> generate_video_script env pinfo = Inr (Some sd) \<and> sd \<noteq> []
       \<and> getitem sd ''script'' = Inr stext
       \<and> generate_speech env stext (u ''alloy'') = Inr (Some ap) \<and> ap \<noteq> []
       \<and> get_audio_duration env ap = Inr dur
       \<and> generate_subtitles_from_script env stext dur = Inr sp
       \<and> generate_video_from_script env sd (dict_get pinfo ''images'' (PList [])) = Inr (Some vp)
       \<and> vp \<noteq> []
       \<and> final = fst (compose_final_video main_globals (media env) (time_compose env)
                   (PStr vp) (PStr ap) (str_val sp))
       \<and> truthy final
       \<and> upload_to_social_media env final sd publish_trace = (results, tr) \<longrightarrow>
      process_coupang_link env url =
        ([(u ''success'', PBool True), (u ''product_info'', PDict pinfo),
          (u ''script_data'', PDict sd), (u ''video_path'', final),
          (u ''upload_results'', PDict results),
          (u ''processing_time'', PFloat (time_result env))], tr))"
proof -
  have f0: "\<exists>r tr. process_coupang_link env url = (r, tr) \<and>
      ((\<exists>pinfo sd fv ur. r = [(u ''success'', PBool True), (u ''product_info'', PDict pinfo),
          (u ''script_data'', PDict sd), (u ''video_path'', fv), (u ''upload_results'', PDict ur),
          (u ''processing_time'', PFloat (time_result env))])
       \<or> (\<exists>e. process_try env url [] = (Inl e, tr) \<and>
             r = [(u ''success'', PBool False), (u ''error'', PStr (exn_str e)),
                  (u ''processing_time'', PFloat (time_result env))]))"
    by (rule process_result_two_shapes)
  have f1: "process_try env url [] = (Inl e, tr) \<longrightarrow>
      process_coupang_link env url =
        ([(u ''success'', PBool False), (u ''error'', PStr (exn_str e)),
          (u ''processing_time'', PFloat (time_result env))], tr)"
    by (simp add: process_coupang_link_def failure_result_def)
  have f2: "process_try env url [] = (Inr r, tr) \<longrightarrow>
      process_coupang_link env url = (r, tr)
      \<and> (\<exists>pinfo sd stext ap dur sp vp final results.
           extract_product_info env url = Inr (Some pinfo) \<and> pinfo \<noteq> []
           \<and> generate_video_script env pinfo = Inr (Some sd) \<and> sd \<noteq> []
           \<and> getitem sd ''script'' = Inr stext
           \<and> generate_speech env stext (u ''alloy'') = Inr (Some ap) \<and> ap \<noteq> []
           \<and> get_audio_duration env ap = Inr dur
           \<and> generate_subtitles_from_script env stext dur = Inr sp
           \<and> generate_video_from_script env sd (dict_get pinfo ''images'' (PList [])) = Inr (Some vp)
           \<and> vp \<noteq> []
           \<and> final = fst (compose_final_video main_globals (media env) (time_compose env)
                       (PStr vp) (PStr ap) (str_val sp))
           \<and> truthy final
           \<and> upload_to_social_media env final sd publish_trace = (results, tr)
           \<and> r = [(u ''success'', PBool True), (u ''product_info'', PDict pinfo),
                 (u ''script_data'', PDict sd), (u ''video_path'', final),
                 (u ''upload_results'', PDict results),
                 (u ''processing_time'', PFloat (time_result env))])"
    using process_try_success [of env url r tr]
    by (simp add: process_coupang_link_def success_result_def)
  have f3: "extract_product_info env url = Inr (Some pinfo) \<and> pinfo \<noteq> []
       \<and> generate_video_script env pinfo = Inr (Some sd) \<and> sd \<noteq> []
       \<and> map_of sd (u ''script'') = None \<longrightarrow>
      process_coupang_link env url =
        ([(u ''success'', PBool False), (u ''error'', PStr ([39] @ u ''script'' @ [39])),
          (u ''processing_time'', PFloat (time_result env))],
         [Call_extract, Call_script])"
    using process_script_key_error [of env url "Some pinfo" "Some sd"
        "Exn KeyError ([39] @ u ''script'' @ [39])"] getitem_missing [of sd "''script''"]
    by (simp add: dict_val_def the_dict_def failure_result_def)
  have f4: "extract_product_info env url = Inr (Some pinfo) \<and> pinfo \<noteq> []
       \<and> generate_video_script env pinfo = Inr (Some sd) \<and> sd \<noteq> []
       \<and> getitem sd ''script'' = Inr stext
       \<and> generate_speech env stext (u ''alloy'') = Inr (Some ap) \<and> ap \<noteq> []
       \<and> get_audio_duration env ap = Inr dur
       \<and> generate_subtitles_from_script env stext dur = Inr sp
       \<and> generate_video_from_script env sd (dict_get pinfo ''images'' (PList [])) = Inr (Some vp)
       \<and> vp \<noteq> []
       \<and> \<not> truthy (fst (compose_final_video main_globals (media env) (time_compose env)
                        (PStr vp) (PStr ap) (str_val sp))) \<longrightarrow>
      process_coupang_link env url =
        ([(u ''success'', PBool False), (u ''error'', PStr (msg_compose_failed)),
          (u ''processing_time'', PFloat (time_result env))], publish_trace)"
    using process_compose_falsy [of env url "Some pinfo" "Some sd" stext "Some ap" dur sp "Some vp"]
    by (simp add: dict_val_def str_val_def the_dict_def the_str_def failure_result_def)
  have f5: "extract_product_info env url = Inr (Some pinfo) \<and> pinfo \<noteq> []
       \<and> generate_video_script env pinfo = Inr (Some sd) \<and> sd \<noteq> []
       \<and> getitem sd ''script'' = Inr stext
       \<and> generate_speech env stext (u ''alloy'') = Inr (Some ap) \<and> ap \<noteq> []
       \<and> get_audio_duration env ap = Inr dur
       \<and> generate_subtitles_from_script env stext dur = Inr sp
       \<and> generate_video_from_script env sd (dict_get pinfo ''images'' (PList [])) = Inr (Some vp)
       \<and> vp \<noteq> []
       \<and> final = fst (compose_final_video main_globals (media env) (time_compose env)
                   (PStr vp) (PStr ap) (str_val sp))
       \<and> truthy final
       \<and> upload_to_social_media env final sd publish_trace = (results, tr) \<longrightarrow>
      process_coupang_link env url =
        ([(u ''success'', PBool True), (u ''product_info'', PDict pinfo),
          (u ''script_data'', PDict sd), (u ''video_path'', final),
          (u ''upload_results'', PDict results),
          (u ''processing_time'', PFloat (time_result env))], tr)"
    using process_reaches_publish [of env url "Some pinfo" "Some sd" stext "Some ap" dur sp "Some vp"
        final results tr]
    by (auto simp: dict_val_def the_dict_def the_str_def truthy_str_val success_result_def
        publish_trace_def)
  from f0 f1 f2 f3 f4 f5 show ?thesis
    by (intro conjI) assumption+
qed

theorem process_coupang_link_result_shape_witness:
  "process_coupang_link no_script_key_env sample_url =
     ([(u ''success'', PBool False), (u ''error'', PStr ([39] @ u ''script'' @ [39])),
       (u ''processing_time'', PFloat 1700000300)],
      [Call_extract, Call_script])
   \<and> process_coupang_link subtitled_env sample_url =
     ([(u ''success'', PBool False), (u ''error'', PStr msg_compose_failed),
       (u ''processing_time'', PFloat 1700000300)],
      publish_trace)
   \<and> process_coupang_link sample_env sample_url =
     ([(u ''success'', PBool True), (u ''product_info'', PDict sample_product),
       (u ''script_data'', PDict sample_script),
       (u ''video_path'', PStr (output_path_of 1700000200)),
       (u ''upload_results'',
          PDict [(u ''instagram'', instagram_entry (Some (u ''17900000000000001''))),
                 (u ''youtube'', youtube_entry (Some (u ''dQw4w9WgXcQ'')))]),
       (u ''processing_time'', PFloat 1700000300)],
      publish_trace @ [Call_instagram, Call_youtube])"
proof -
  note T = process_coupang_link_result_shape
  have a1: "process_coupang_link no_script_key_env sample_url =
     ([(u ''success'', PBool False), (u ''error'', PStr ([39] @ u ''script'' @ [39])),
       (u ''processing_time'', PFloat 1700000300)],
      [Call_extract, Call_script])"
    using T [where env = no_script_key_env and url = sample_url
        and e = "Exn KeyError ([39] @ u ''script'' @ [39])" and tr = "[Call_extract, Call_script]",
        THEN conjunct2, THEN conjunct1] no_script_key_try
    by (simp add: no_script_key_env_def sample_env_def)
  have a3: "process_coupang_link no_script_key_env sample_url =
     ([(u ''success'', PBool False), (u ''error'', PStr ([39] @ u ''script'' @ [39])),
       (u ''processing_time'', PFloat 1700000300)],
      [Call_extract, Call_script])"
    using T [where env = no_script_key_env and url = sample_url
        and pinfo = sample_product and sd = script_without_script_key,
        THEN conjunct2, THEN conjunct2, THEN conjunct2, THEN conjunct1]
    by (simp add: no_script_key_env_def sample_env_def sample_product_def
        script_without_script_key_def)
  have a4: "process_coupang_link subtitled_env sample_url =
     ([(u ''success'', PBool False), (u ''error'', PStr msg_compose_failed),
       (u ''processing_time'', PFloat 1700000300)],
      publish_trace)"
    using T [where env = subtitled_env and url = sample_url
        and pinfo = sample_product and sd = sample_script
        and stext = "PStr (u ''Meet the widget.'')"
        and ap = "u ''output/audio/speech_1700000000.mp3''" and dur = 28
        and sp = "Some (u ''output/subtitles/subtitles_1700000150.srt'')"
        and vp = "u ''output/videos/final_video_1700000100.mp4''",
        THEN conjunct2, THEN conjunct2, THEN conjunct2, THEN conjunct2, THEN conjunct1]
      sample_compose_with_subtitles
    by (simp add: subtitled_env_def sample_env_def sample_script_keys str_val_def)
       (simp add: sample_product_def sample_script_def dict_get_def)
  have up: "upload_to_social_media sample_env (PStr (output_path_of 1700000200)) sample_script
              publish_trace
      = ([(u ''instagram'', instagram_entry (Some (u ''17900000000000001''))),
          (u ''youtube'', youtube_entry (Some (u ''dQw4w9WgXcQ'')))],
         publish_trace @ [Call_instagram, Call_youtube])"
    by (rule upload_both_return [OF sample_script_keys(1) sample_script_keys(2)])
       (simp_all add: sample_env_def)
  have a5: "process_coupang_link sample_env sample_url =
     ([(u ''success'', PBool True), (u ''product_info'', PDict sample_product),
       (u ''script_data'', PDict sample_script),
       (u ''video_path'', PStr (output_path_of 1700000200)),
       (u ''upload_results'',
          PDict [(u ''instagram'', instagram_entry (Some (u ''17900000000000001''))),
                 (u ''youtube'', youtube_entry (Some (u ''dQw4w9WgXcQ'')))]),
       (u ''processing_time'', PFloat 1700000300)],
      publish_trace @ [Call_instagram, Call_youtube])"
    using T [where env = sample_env and url = sample_url
        and pinfo = sample_product and sd = sample_script
        and stext = "PStr (u ''Meet the widget.'')"
        and ap = "u ''output/audio/speech_1700000000.mp3''" and dur = 28
        and sp = None
        and vp = "u ''output/videos/final_video_1700000100.mp4''"
        and final = "PStr (output_path_of 1700000200)"
        and results = "[(u ''instagram'', instagram_entry (Some (u ''17900000000000001''))),
                 (u ''youtube'', youtube_entry (Some (u ''dQw4w9WgXcQ'')))]"
        and tr = "publish_trace @ [Call_instagram, Call_youtube]",
        THEN conjunct2, THEN conjunct2, THEN conjunct2, THEN conjunct2, THEN conjunct2]
      sample_compose up
    by (simp add: sample_env_def sample_script_keys str_val_def)
       (simp add: sample_product_def sample_script_def dict_get_def)
  have a2: "process_coupang_link sample_env sample_url =
     (success_result sample_env sample_product sample_script (PStr (output_path_of 1700000200))
        [(u ''instagram'', instagram_entry (Some (u ''17900000000000001''))),
         (u ''youtube'', youtube_entry (Some (u ''dQw4w9WgXcQ'')))],
      [Call_extract, Call_script, Call_speech, Call_duration, Call_subtitles, Call_video,
       Call_compose, Call_instagram, Call_youtube])"
    using T [where env = sample_env and url = sample_url
        and r = "success_result sample_env sample_product sample_script (PStr (output_path_of 1700000200))
        [(u ''instagram'', instagram_entry (Some (u ''17900000000000001''))),
         (u ''youtube'', youtube_entry (Some (u ''dQw4w9WgXcQ'')))]"
        and tr = "[Call_extract, Call_script, Call_speech, Call_duration, Call_subtitles, Call_video,
       Call_compose, Call_instagram, Call_youtube]",
        THEN conjunct2, THEN conjunct2, THEN conjunct1] sample_try
    by simp
  from a1 a2 a3 a4 a5 show ?thesis by (intro conjI) assumption+
qed

text \<open>
  C8, as the code has it. A run whose composition returned a path ends with \<open>success\<close>
  true whatever the publishing step does; \<open>upload_results\<close> is the dict that step built
  and the calls of the run end with its calls. When the script has \<open>description\<close> and
  \<open>title\<close> and both upload calls return, that dict has an entry for each target, with
  \<open>success\<close> false for an upload that returned \<open>None\<close>. Without \<open>description\<close> no
  upload is called and the dict holds \<open>error\<close> only; with \<open>description\<close> but without
  \<open>title\<close> it holds the Instagram entry and \<open>error\<close>, and YouTube is not called.
\<close>

theorem publish_failures_are_not_fatal:
  assumes "extract_product_info env url = Inr (Some pinfo)" and "pinfo \<noteq> []"
    and "generate_video_script env pinfo = Inr (Some sd)" and "sd \<noteq> []"
    and "getitem sd ''script'' = Inr stext"
    and "generate_speech env stext (u ''alloy'') = Inr (Some ap)" and "ap \<noteq> []"
    and "get_audio_duration env ap = Inr dur"
    and "generate_subtitles_from_script env stext dur = Inr sp"
    and "generate_video_from_script env sd (dict_get pinfo ''images'' (PList [])) = Inr (Some vp)"
    and "vp \<noteq> []"
    and "fst (compose_final_video main_globals (media env) (time_compose env) (PStr vp) (PStr ap) (str_val sp))
           = final"
    and "truthy final"
  shows "map_of (fst (process_coupang_link env url)) (u ''success'') = Some (PBool True)
    \<and> map_of (fst (process_coupang_link env url)) (u ''upload_results'')
        = Some (PDict (fst (upload_to_social_media env final sd publish_trace)))
    \<and> (\<forall>d t ig yt.
          getitem sd ''description'' = Inr d \<and> getitem sd ''title'' = Inr t
          \<and> instagram_upload_video env final d (dict_get sd ''hashtags'' (PList [])) = Inr ig
          \<and> youtube_upload_video env final t d (dict_get sd ''hashtags'' (PList [])) = Inr yt \<longrightarrow>
          upload_to_social_media env final sd publish_trace
            = ([(u ''instagram'',
                   PDict [(u ''success'', PBool (ig \<noteq> None)), (u ''media_id'', str_val ig)]),
                (u ''youtube'',
                   PDict [(u ''success'', PBool (yt \<noteq> None)), (u ''video_id'', str_val yt)])],
               publish_trace @ [Call_instagram, Call_youtube]))
    \<and> (map_of sd (u ''description'') = None \<longrightarrow>
          upload_to_social_media env final sd publish_trace
            = ([(u ''error'', PStr ([39] @ u ''description'' @ [39]))], publish_trace))
    \<and> (\<forall>d ig.
          getitem sd ''description'' = Inr d
          \<and> instagram_upload_video env final d (dict_get sd ''hashtags'' (PList [])) = Inr ig
          \<and> map_of sd (u ''title'') = None \<longrightarrow>
          upload_to_social_media env final sd publish_trace
            = ([(u ''instagram'',
                   PDict [(u ''success'', PBool (ig \<noteq> None)), (u ''media_id'', str_val ig)]),
                (u ''error'', PStr ([39] @ u ''title'' @ [39]))],
               publish_trace @ [Call_instagram]))
    \<and> snd (process_coupang_link env url)
        = snd (upload_to_social_media env final sd publish_trace)"
proof -
  obtain results tr where up: "upload_to_social_media env final sd publish_trace = (results, tr)"
    by (cases "upload_to_social_media env final sd publish_trace")
  have run: "process_coupang_link env url = (success_result env pinfo sd final results, tr)"
    using process_reaches_publish [of env url "Some pinfo" "Some sd" stext "Some ap" dur sp "Some vp"
            final results tr] assms up
    by (simp add: dict_val_def str_val_def the_dict_def the_str_def publish_trace_def)
  from run have "map_of (fst (process_coupang_link env url)) (u ''success'') = Some (PBool True)"
    and "map_of (fst (process_coupang_link env url)) (u ''upload_results'')
        = Some (PDict (fst (upload_to_social_media env final sd publish_trace)))"
    by (simp_all add: success_result_def up)
  moreover have "\<forall>d t ig yt.
          getitem sd ''description'' = Inr d \<and> getitem sd ''title'' = Inr t
          \<and> instagram_upload_video env final d (dict_get sd ''hashtags'' (PList [])) = Inr ig
          \<and> youtube_upload_video env final t d (dict_get sd ''hashtags'' (PList [])) = Inr yt \<longrightarrow>
          upload_to_social_media env final sd publish_trace
            = ([(u ''instagram'',
                   PDict [(u ''success'', PBool (ig \<noteq> None)), (u ''media_id'', str_val ig)]),
                (u ''youtube'',
                   PDict [(u ''success'', PBool (yt \<noteq> None)), (u ''video_id'', str_val yt)])],
               publish_trace @ [Call_instagram, Call_youtube])"
    by (auto simp: upload_both_return instagram_entry_def youtube_entry_def)
  moreover have "map_of sd (u ''description'') = None \<longrightarrow>
          upload_to_social_media env final sd publish_trace
            = ([(u ''error'', PStr ([39] @ u ''description'' @ [39]))], publish_trace)"
    using upload_no_description [of sd "Exn KeyError ([39] @ u ''description'' @ [39])" env final
        publish_trace] getitem_missing [of sd "''description''"]
    by simp
  moreover have "\<forall>d ig.
          getitem sd ''description'' = Inr d
          \<and> instagram_upload_video env final d (dict_get sd ''hashtags'' (PList [])) = Inr ig
          \<and> map_of sd (u ''title'') = None \<longrightarrow>
          upload_to_social_media env final sd publish_trace
            = ([(u ''instagram'',
                   PDict [(u ''success'', PBool (ig \<noteq> None)), (u ''media_id'', str_val ig)]),
                (u ''error'', PStr ([39] @ u ''title'' @ [39]))],
               publish_trace @ [Call_instagram])"
    using getitem_missing [of sd "''title''"]
    by (auto simp: upload_no_title instagram_entry_def)
  moreover have "snd (process_coupang_link env url)
        = snd (upload_to_social_media env final sd publish_trace)"
    using run by (simp add: up)
  ultimately show ?thesis by (intro conjI) assumption+
qed

lemma sample_media_of_variants:
  "media uploads_fail_env = sample_media" "time_compose uploads_fail_env = 1700000200"
  "media no_description_env = sample_media" "time_compose no_description_env = 1700000200"
  "media no_title_env = sample_media" "time_compose no_title_env = 1700000200"
  by (simp_all add: uploads_fail_env_def no_description_env_def no_title_env_def sample_env_def)

theorem publish_failures_are_not_fatal_witness:
  "map_of (fst (process_coupang_link uploads_fail_env sample_url)) (u ''success'') = Some (PBool True)
   \<and> map_of (fst (process_coupang_link uploads_fail_env sample_url)) (u ''upload_results'')
       = Some (PDict [(u ''instagram'', PDict [(u ''success'', PBool False), (u ''media_id'', PNone)]),
                      (u ''youtube'', PDict [(u ''success'', PBool False), (u ''video_id'', PNone)])])
   \<and> snd (process_coupang_link uploads_fail_env sample_url)
       = publish_trace @ [Call_instagram, Call_youtube]
   \<and> map_of (fst (process_coupang_link no_description_env sample_url)) (u ''success'')
       = Some (PBool True)
   \<and> map_of (fst (process_coupang_link no_description_env sample_url)) (u ''upload_results'')
       = Some (PDict [(u ''error'', PStr ([39] @ u ''description'' @ [39]))])
   \<and> snd (process_coupang_link no_description_env sample_url) = publish_trace
   \<and> map_of (fst (process_coupang_link no_title_env sample_url)) (u ''success'') = Some (PBool True)
   \<and> map_of (fst (process_coupang_link no_title_env sample_url)) (u ''upload_results'')
       = Some (PDict [(u ''instagram'',
                         PDict [(u ''success'', PBool True),
                                (u ''media_id'', PStr (u ''17900000000000001''))]),
                      (u ''error'', PStr ([39] @ u ''title'' @ [39]))])
   \<and> snd (process_coupang_link no_title_env sample_url) = publish_trace @ [Call_instagram]"
proof -
  have a: "map_of (fst (process_coupang_link uploads_fail_env sample_url)) (u ''success'') = Some (PBool True)
   \<and> map_of (fst (process_coupang_link uploads_fail_env sample_url)) (u ''upload_results'')
       = Some (PDict [(u ''instagram'', PDict [(u ''success'', PBool False), (u ''media_id'', PNone)]),
                      (u ''youtube'', PDict [(u ''success'', PBool False), (u ''video_id'', PNone)])])
   \<and> snd (process_coupang_link uploads_fail_env sample_url)
       = publish_trace @ [Call_instagram, Call_youtube]"
  proof -
    have "extract_product_info uploads_fail_env sample_url = Inr (Some sample_product)"
      "generate_video_script uploads_fail_env sample_product = Inr (Some sample_script)"
      "generate_speech uploads_fail_env (PStr (u ''Meet the widget.'')) (u ''alloy'')
         = Inr (Some (u ''output/audio/speech_1700000000.mp3''))"
      "get_audio_duration uploads_fail_env (u ''output/audio/speech_1700000000.mp3'') = Inr 28"
      "generate_subtitles_from_script uploads_fail_env (PStr (u ''Meet the widget.'')) 28 = Inr None"
      "generate_video_from_script uploads_fail_env sample_script
         (dict_get sample_product ''images'' (PList []))
         = Inr (Some (u ''output/videos/final_video_1700000100.mp4''))"
      by (simp_all add: uploads_fail_env_def sample_env_def)
    from publish_failures_are_not_fatal
          [of uploads_fail_env sample_url sample_product sample_script
              "PStr (u ''Meet the widget.'')" "u ''output/audio/speech_1700000000.mp3''" 28 None
              "u ''output/videos/final_video_1700000100.mp4''" "PStr (output_path_of 1700000200)"] this
    show ?thesis
      by (simp add: sample_media_of_variants sample_compose sample_script_keys str_val_def
            sample_product_def)
         (simp add: uploads_fail_env_def sample_env_def sample_script_def)
  qed
  have b: "map_of (fst (process_coupang_link no_description_env sample_url)) (u ''success'')
       = Some (PBool True)
   \<and> map_of (fst (process_coupang_link no_description_env sample_url)) (u ''upload_results'')
       = Some (PDict [(u ''error'', PStr ([39] @ u ''description'' @ [39]))])
   \<and> snd (process_coupang_link no_description_env sample_url) = publish_trace"
  proof -
    have "extract_product_info no_description_env sample_url = Inr (Some sample_product)"
      "generate_video_script no_description_env sample_product = Inr (Some script_without_description)"
      "generate_speech no_description_env (PStr (u ''Meet the widget.'')) (u ''alloy'')
         = Inr (Some (u ''output/audio/speech_1700000000.mp3''))"
      "get_audio_duration no_description_env (u ''output/audio/speech_1700000000.mp3'') = Inr 28"
      "generate_subtitles_from_script no_description_env (PStr (u ''Meet the widget.'')) 28 = Inr None"
      "generate_video_from_script no_description_env script_without_description
         (dict_get sample_product ''images'' (PList []))
         = Inr (Some (u ''output/videos/final_video_1700000100.mp4''))"
      by (simp_all add: no_description_env_def sample_env_def)
    from publish_failures_are_not_fatal
          [of no_description_env sample_url sample_product script_without_description
              "PStr (u ''Meet the widget.'')" "u ''output/audio/speech_1700000000.mp3''" 28 None
              "u ''output/videos/final_video_1700000100.mp4''" "PStr (output_path_of 1700000200)"] this
    show ?thesis
      by (simp add: sample_media_of_variants sample_compose script_without_description_keys
            str_val_def sample_product_def)
         (simp add: script_without_description_def)
  qed
  have c: "map_of (fst (process_coupang_link no_title_env sample_url)) (u ''success'') = Some (PBool True)
   \<and> map_of (fst (process_coupang_link no_title_env sample_url)) (u ''upload_results'')
       = Some (PDict [(u ''instagram'',
                         PDict [(u ''success'', PBool True),
                                (u ''media_id'', PStr (u ''17900000000000001''))]),
                      (u ''error'', PStr ([39] @ u ''title'' @ [39]))])
   \<and> snd (process_coupang_link no_title_env sample_url) = publish_trace @ [Call_instagram]"
  proof -
    have "extract_product_info no_title_env sample_url = Inr (Some sample_product)"
      "generate_video_script no_title_env sample_product = Inr (Some script_without_title)"
      "generate_speech no_title_env (PStr (u ''Meet the widget.'')) (u ''alloy'')
         = Inr (Some (u ''output/audio/speech_1700000000.mp3''))"
      "get_audio_duration no_title_env (u ''output/audio/speech_1700000000.mp3'') = Inr 28"
      "generate_subtitles_from_script no_title_env (PStr (u ''Meet the widget.'')) 28 = Inr None"
      "generate_video_from_script no_title_env script_without_title
         (dict_get sample_product ''images'' (PList []))
         = Inr (Some (u ''output/videos/final_video_1700000100.mp4''))"
      "instagram_upload_video no_title_env (PStr (output_path_of 1700000200))
         (PStr (u ''A short look at the widget'')) (PList []) = Inr (Some (u ''17900000000000001''))"
      by (simp_all add: no_title_env_def sample_env_def)
    from publish_failures_are_not_fatal
          [of no_title_env sample_url sample_product script_without_title
              "PStr (u ''Meet the widget.'')" "u ''output/audio/speech_1700000000.mp3''" 28 None
              "u ''output/videos/final_video_1700000100.mp4''" "PStr (output_path_of 1700000200)"] this
    show ?thesis
      by (simp add: sample_media_of_variants sample_compose script_without_title_keys
            str_val_def sample_product_def)
         (simp add: script_without_title_def)
  qed
  from a b c show ?thesis by blast
qed

text \<open>
  C8 as stated fails: with a script that has no \<open>description\<close>, the run ends with
  \<open>success\<close> true, but no upload is called and no target has an entry in
  \<open>upload_results\<close>, which holds the text of the \<open>KeyError\<close> only.
\<close>

theorem missing_description_records_no_target:
  "process_coupang_link no_description_env sample_url
     = ([(u ''success'', PBool True),
         (u ''product_info'', PDict sample_product),
         (u ''script_data'', PDict script_without_description),
         (u ''video_path'', PStr (output_path_of 1700000200)),
         (u ''upload_results'', PDict [(u ''error'', PStr ([39] @ u ''description'' @ [39]))]),
         (u ''processing_time'', PFloat 1700000300)],
        [Call_extract, Call_script, Call_speech, Call_duration, Call_subtitles, Call_video,
         Call_compose])"
  by (simp add: pipeline_defs no_description_env_def sample_env_def sample_media_def speech_28s_def
        video_32s_def dict_val_def str_val_def the_dict_def the_str_def getitem_def dict_get_def
        sample_product_def script_without_description_def success_result_def)

subsection \<open>Waiting for a remote job\<close>







lemma pending_twice_run:
  "wait_for_upload_completion graph_pending_twice default_max_wait 0 0 =
    (True, [Queried 0, Slept 10, Queried 1, Slept 10, Queried 2, Logged_info log_upload_done])"
  by (simp add: wait_for_upload_completion.simps graph_pending_twice_def default_max_wait_def poll_interval_def)

lemma always_pending_count:
  "length (filter is_query (snd (wait_for_upload_completion graph_always_pending default_max_wait 0 0))) = 30"
  by (simp add: wait_for_upload_completion.simps graph_always_pending_def default_max_wait_def
      poll_interval_def is_query_def)










subsection \<open>Parsing the script response\<close>

lemma find_char_bounds: "- 1 \<le> find_char c s \<and> find_char c s < int (length s)"
  by (induction s) (auto simp: Let_def)

lemma find_char_absent: "find_char c s = - 1 \<longleftrightarrow> c \<notin> set s"
proof (induction s)
  case Nil
  show ?case by simp
next
  case (Cons x xs)
  with find_char_bounds [of c xs] show ?case by (auto simp: Let_def)
qed

lemma rfind_char_bounds: "- 1 \<le> rfind_char c s"
  using find_char_bounds [of c "rev s"] by (auto simp: rfind_char_def Let_def)

lemma end_idx_never_minus_one: "rfind_char c s + 1 \<noteq> - 1"
  using rfind_char_bounds [of c s] by simp

lemma fallback_parse_shape:
  "has_script_keys (fallback_parse text)
   \<and> fallback_parse text =
       PDict [(u ''title'', PStr fallback_title),
              (u ''description'', PStr fallback_description),
              (u ''script'', PStr (take 500 text)),
              (u ''hashtags'', PList fallback_hashtags),
              (u ''video_scenes'',
                 PList [PDict [(u ''scene'', PInt 1),
                               (u ''description'', PStr fallback_scene_description),
                               (u ''duration'', PInt 30)]])]"
  by (simp add: fallback_parse_def has_script_keys_def keys_def)

lemma json_loads_empty_object_other:
  "s \<noteq> u ''{}'' \<Longrightarrow> json_loads_empty_object s = Inl (Exn JSONDecodeError (u ''Expecting value''))"
  by (simp add: json_loads_empty_object_def)

text \<open>
  C9, as the code has it. When the response has no \<open>{\<close>, or the text from its first
  \<open>{\<close> through its last \<open>}\<close> makes \<open>json.loads\<close> raise \<open>JSONDecodeError\<close>, the result
  is the fallback structure: it has the keys \<open>title\<close>, \<open>description\<close>, \<open>script\<close>,
  \<open>hashtags\<close> and \<open>video_scenes\<close>, its script is the first 500 characters of the
  response and its only scene lasts 30 seconds. When that text decodes, the decoded value
  is returned as it is, whatever keys it has. Any other exception of \<open>json.loads\<close> is not
  caught.
\<close>

theorem parse_script_response_cases:
  "(123 \<notin> set response_text \<longrightarrow>
      parse_script_response json_loads response_text = Inr (fallback_parse response_text))
   \<and> (123 \<in> set response_text
       \<and> json_loads (py_slice response_text (find_char 123 response_text)
                        (rfind_char 125 response_text + 1)) = Inr v \<longrightarrow>
      parse_script_response json_loads response_text = Inr v)
   \<and> (123 \<in> set response_text
       \<and> json_loads (py_slice response_text (find_char 123 response_text)
                        (rfind_char 125 response_text + 1)) = Inl (Exn JSONDecodeError m) \<longrightarrow>
      parse_script_response json_loads response_text = Inr (fallback_parse response_text))
   \<and> (123 \<in> set response_text
       \<and> json_loads (py_slice response_text (find_char 123 response_text)
                        (rfind_char 125 response_text + 1)) = Inl e
       \<and> exn_class e \<noteq> JSONDecodeError \<longrightarrow>
      parse_script_response json_loads response_text = Inl e)
   \<and> has_script_keys (fallback_parse response_text)
   \<and> fallback_parse response_text =
       PDict [(u ''title'', PStr fallback_title),
              (u ''description'', PStr fallback_description),
              (u ''script'', PStr (take 500 response_text)),
              (u ''hashtags'', PList fallback_hashtags),
              (u ''video_scenes'',
                 PList [PDict [(u ''scene'', PInt 1),
                               (u ''description'', PStr fallback_scene_description),
                               (u ''duration'', PInt 30)]])]"
  using fallback_parse_shape [of response_text] end_idx_never_minus_one [of 125 response_text]
    find_char_absent [of 123 response_text]
  by (auto simp: parse_script_response_def Let_def)

theorem parse_script_response_cases_witness:
  "parse_script_response json_loads_empty_object (u ''Sorry, no script.'')
     = Inr (fallback_parse (u ''Sorry, no script.''))
   \<and> parse_script_response json_loads_empty_object (u ''ok {} done'') = Inr (PDict [])
   \<and> parse_script_response json_loads_empty_object (u ''{broken}'') = Inr (fallback_parse (u ''{broken}''))
   \<and> parse_script_response (\<lambda>s. Inl (Exn RecursionError (u ''maximum recursion depth exceeded'')))
         (u ''{{{{'') = Inl (Exn RecursionError (u ''maximum recursion depth exceeded''))"
proof -
  have w0: "parse_script_response json_loads_empty_object (u ''Sorry, no script.'')
     = Inr (fallback_parse (u ''Sorry, no script.''))"
    using parse_script_response_cases [of "u ''Sorry, no script.''" json_loads_empty_object]
    by (simp add: u_def)
  have s1: "py_slice (u ''ok {} done'') (find_char 123 (u ''ok {} done''))
              (rfind_char 125 (u ''ok {} done'') + 1) = u ''{}''"
    by (simp add: u_def rfind_char_def py_slice_def slice_bound_def)
  have w1: "parse_script_response json_loads_empty_object (u ''ok {} done'') = Inr (PDict [])"
    using parse_script_response_cases [of "u ''ok {} done''" json_loads_empty_object "PDict []"]
    by (simp add: s1 json_loads_empty_object_def) (simp add: u_def)
  have s2: "py_slice (u ''{broken}'') (find_char 123 (u ''{broken}''))
              (rfind_char 125 (u ''{broken}'') + 1) = u ''{broken}''"
    by (simp add: u_def rfind_char_def py_slice_def slice_bound_def)
  have w2: "parse_script_response json_loads_empty_object (u ''{broken}'') = Inr (fallback_parse (u ''{broken}''))"
    using parse_script_response_cases [of "u ''{broken}''" json_loads_empty_object _ "u ''Expecting value''"]
    by (simp add: s2 json_loads_empty_object_def) (simp add: u_def)
  have w3: "parse_script_response (\<lambda>s. Inl (Exn RecursionError (u ''maximum recursion depth exceeded'')))
         (u ''{{{{'') = Inl (Exn RecursionError (u ''maximum recursion depth exceeded''))"
    using parse_script_response_cases [of "u ''{{{{''"
        "\<lambda>s. Inl (Exn RecursionError (u ''maximum recursion depth exceeded''))" _ _
        "Exn RecursionError (u ''maximum recursion depth exceeded'')"]
    by simp (simp add: u_def)
  from w0 w1 w2 w3 show ?thesis by (intro conjI) assumption+
qed

text \<open>
  C9 as stated fails: the response \<open>{}\<close> decodes to the empty dict, which is returned
  and has none of the five keys.
\<close>

theorem parse_script_response_empty_object:
  "parse_script_response json_loads_empty_object (u ''{}'') = Inr (PDict [])
   \<and> \<not> has_script_keys (PDict [])"
  by (simp add: parse_script_response_def json_loads_empty_object_def has_script_keys_def
      rfind_char_def py_slice_def slice_bound_def keys_def u_def)

subsection \<open>The scraper\<close>

lemma collect_fields_raises:
  "(k, m) \<in> set fs \<Longrightarrow> extract_field env m soup = Inl e' \<Longrightarrow>
   \<exists>e. collect_fields env soup fs = Inl e"
  by (induction fs) (auto split: sum.splits)

lemma sample_url_valid: "is_valid_coupang_url ascii_digit sample_url"
  by (simp add: is_valid_coupang_url_def coupang_patterns_def lit_def sample_url_def u_def ascii_digit_def)

lemma other_host_invalid: "\<not> is_valid_coupang_url ascii_digit (u ''https://example.com/vp/products/1'')"
  by (simp add: is_valid_coupang_url_def coupang_patterns_def lit_def u_def ascii_digit_def)

text \<open>
  C10. For a URL that matches neither pattern, \<open>extract_product_info\<close> returns \<open>None\<close>;
  so it does when the request raises and when any of the seven field extractions raises.
  In every case it returns: \<open>None\<close> when the body of its \<open>try\<close> raised, the product dict
  otherwise.
\<close>

theorem scraper_never_raises:
  "(\<not> is_valid_coupang_url (decimal_digit env) coupang_url \<longrightarrow>
      scraper_extract_product_info env coupang_url = None)
   \<and> (fetch_page env coupang_url = Inl e \<longrightarrow> scraper_extract_product_info env coupang_url = None)
   \<and> (fetch_page env coupang_url = Inr soup \<and> (k, m) \<in> set product_fields
       \<and> extract_field env m soup = Inl e \<longrightarrow>
      scraper_extract_product_info env coupang_url = None)
   \<and> ((\<exists>e'. scrape_try env coupang_url = Inl e' \<and> scraper_extract_product_info env coupang_url = None)
       \<or> (\<exists>d. scrape_try env coupang_url = Inr d
              \<and> scraper_extract_product_info env coupang_url = Some d))"
proof -
  have a: "\<not> is_valid_coupang_url (decimal_digit env) coupang_url \<longrightarrow>
      scraper_extract_product_info env coupang_url = None"
    by (simp add: scraper_extract_product_info_def scrape_try_def)
  have b: "fetch_page env coupang_url = Inl e \<longrightarrow> scraper_extract_product_info env coupang_url = None"
    by (simp add: scraper_extract_product_info_def scrape_try_def)
  have c: "fetch_page env coupang_url = Inr soup \<and> (k, m) \<in> set product_fields
       \<and> extract_field env m soup = Inl e \<longrightarrow>
      scraper_extract_product_info env coupang_url = None"
    using collect_fields_raises [of k m product_fields env soup e]
    by (auto simp: scraper_extract_product_info_def scrape_try_def)
  have d: "(\<exists>e'. scrape_try env coupang_url = Inl e' \<and> scraper_extract_product_info env coupang_url = None)
       \<or> (\<exists>d. scrape_try env coupang_url = Inr d
              \<and> scraper_extract_product_info env coupang_url = Some d)"
    by (cases "scrape_try env coupang_url") (simp_all add: scraper_extract_product_info_def)
  from a b c d show ?thesis by (intro conjI) assumption+
qed

theorem scraper_never_raises_witness:
  "\<not> is_valid_coupang_url ascii_digit (u ''https://example.com/vp/products/1'')
   \<and> scraper_extract_product_info scraper_env_ok (u ''https://example.com/vp/products/1'') = None
   \<and> is_valid_coupang_url ascii_digit sample_url
   \<and> scraper_extract_product_info scraper_env_offline sample_url = None
   \<and> scraper_extract_product_info scraper_env_bad_rating sample_url = None"
proof -
  have w0: "scraper_extract_product_info scraper_env_ok (u ''https://example.com/vp/products/1'') = None"
    using scraper_never_raises [of scraper_env_ok "u ''https://example.com/vp/products/1''"] other_host_invalid
    by (simp add: scraper_env_ok_def)
  have w1: "scraper_extract_product_info scraper_env_offline sample_url = None"
    using scraper_never_raises [of scraper_env_offline sample_url "Exn OSError (u ''Name or service not known'')"]
    by (simp add: scraper_env_offline_def scraper_env_ok_def)
  have w2: "scraper_extract_product_info scraper_env_bad_rating sample_url = None"
    using scraper_never_raises [of scraper_env_bad_rating sample_url "Exn AttributeError (u ''get_text'')"
        "()" "''rating''" "''_extract_rating''"]
    by (simp add: scraper_env_bad_rating_def scraper_env_ok_def product_fields_def)
  from other_host_invalid w0 sample_url_valid w1 w2 show ?thesis by (intro conjI) assumption+
qed

end
